theory Spec2Isabelle
  imports Main "HOL-Library.Word"
begin

section \<open>Bytes and strings\<close>

text \<open>
  A Python \<open>bytes\<close> value is a list of 8-bit words. A Python \<open>str\<close> is a list of Unicode
  code points, each a natural number. String literals of the source are written with
  \<open>lit\<close>, byte literals with \<open>blit\<close>.
\<close>

type_synonym byte = "8 word"
type_synonym bytes = "byte list"
type_synonym pystr = "nat list"

definition lit :: "string \<Rightarrow> pystr" where
  "lit cs = map of_char cs"

definition blit :: "string \<Rightarrow> bytes" where
  "blit cs = map of_char cs"

text \<open>\<open>s.startswith(p)\<close>\<close>

definition startswith :: "pystr \<Rightarrow> pystr \<Rightarrow> bool" where
  "startswith s p \<longleftrightarrow> take (length p) s = p"

text \<open>\<open>s.rstrip(chars)\<close>, \<open>s.lstrip(chars)\<close> and \<open>s.strip(chars)\<close>\<close>

definition rstrip :: "pystr \<Rightarrow> pystr \<Rightarrow> pystr" where
  "rstrip s chars = rev (dropWhile (\<lambda>c. c \<in> set chars) (rev s))"

definition lstrip :: "pystr \<Rightarrow> pystr \<Rightarrow> pystr" where
  "lstrip s chars = dropWhile (\<lambda>c. c \<in> set chars) s"

definition strip :: "pystr \<Rightarrow> pystr \<Rightarrow> pystr" where
  "strip s chars = rstrip (lstrip s chars) chars"

subsection \<open>The UTF-8 codec with error replacement\<close>

text \<open>
  \<open>bytes.decode('utf-8', errors='replace')\<close>: the decoder reads one code point at a
  time. A well-formed sequence gives its code point; an ill-formed one gives U+FFFD for
  its maximal well-formed prefix (at least one byte), and decoding resumes after it. A
  sequence cut short by the end of the data gives one U+FFFD for all that is left.
  \<open>utf8_step\<close> returns the code point and the number of bytes it stands for.
\<close>

definition replacement_char :: nat where
  "replacement_char = 0xFFFD"

definition is_continuation :: "nat \<Rightarrow> bool" where
  "is_continuation b \<longleftrightarrow> 0x80 \<le> b \<and> b < 0xC0"

definition code_point2 :: "nat \<Rightarrow> nat \<Rightarrow> nat" where
  "code_point2 b b2 = (b - 0xC0) * 64 + (b2 - 0x80)"

definition code_point3 :: "nat \<Rightarrow> nat \<Rightarrow> nat \<Rightarrow> nat" where
  "code_point3 b b2 b3 = (b - 0xE0) * 4096 + (b2 - 0x80) * 64 + (b3 - 0x80)"

definition code_point4 :: "nat \<Rightarrow> nat \<Rightarrow> nat \<Rightarrow> nat \<Rightarrow> nat" where
  "code_point4 b b2 b3 b4 =
     (b - 0xF0) * 262144 + (b2 - 0x80) * 4096 + (b3 - 0x80) * 64 + (b4 - 0x80)"

definition utf8_step2 :: "nat \<Rightarrow> nat list \<Rightarrow> nat \<times> nat" where
  "utf8_step2 b bs =
     (case bs of
        [] \<Rightarrow> (replacement_char, 1)
      | b2 # _ \<Rightarrow>
          if \<not> is_continuation b2 then (replacement_char, 1)
          else (code_point2 b b2, 2))"

definition utf8_step3 :: "nat \<Rightarrow> nat list \<Rightarrow> nat \<times> nat" where
  "utf8_step3 b bs =
     (case bs of
        [] \<Rightarrow> (replacement_char, 1)
      | b2 # r \<Rightarrow>
          if \<not> is_continuation b2 \<or> (b = 0xE0 \<and> b2 < 0xA0) \<or> (b = 0xED \<and> 0xA0 \<le> b2)
          then (replacement_char, 1)
          else (case r of
                  [] \<Rightarrow> (replacement_char, 2)
                | b3 # _ \<Rightarrow>
                    if \<not> is_continuation b3 then (replacement_char, 2)
                    else (code_point3 b b2 b3, 3)))"

definition utf8_step4 :: "nat \<Rightarrow> nat list \<Rightarrow> nat \<times> nat" where
  "utf8_step4 b bs =
     (case bs of
        [] \<Rightarrow> (replacement_char, 1)
      | b2 # r \<Rightarrow>
          if \<not> is_continuation b2 \<or> (b = 0xF0 \<and> b2 < 0x90) \<or> (b = 0xF4 \<and> 0x90 \<le> b2)
          then (replacement_char, 1)
          else (case r of
                  [] \<Rightarrow> (replacement_char, 2)
                | b3 # r' \<Rightarrow>
                    if \<not> is_continuation b3 then (replacement_char, 2)
                    else (case r' of
                            [] \<Rightarrow> (replacement_char, 3)
                          | b4 # _ \<Rightarrow>
                              if \<not> is_continuation b4 then (replacement_char, 3)
                              else (code_point4 b b2 b3 b4, 4))))"

definition utf8_step :: "nat \<Rightarrow> nat list \<Rightarrow> nat \<times> nat" where
  "utf8_step b bs =
     (if b < 0x80 then (b, 1)
      else if b < 0xC2 then (replacement_char, 1)
      else if b < 0xE0 then utf8_step2 b bs
      else if b < 0xF0 then utf8_step3 b bs
      else if b < 0xF5 then utf8_step4 b bs
      else (replacement_char, 1))"

fun utf8_decode :: "nat list \<Rightarrow> pystr" where
  "utf8_decode [] = []"
| "utf8_decode (b # bs) =
     (case utf8_step b bs of
        (c, k) \<Rightarrow> c # utf8_decode (drop (k - 1) bs))"

definition bytes_decode :: "bytes \<Rightarrow> pystr" where
  "bytes_decode data = utf8_decode (map unat data)"

text \<open>
  \<open>str.encode('utf-8', errors='replace')\<close>: a surrogate code point cannot be encoded
  and is replaced by \<open>?\<close>.
\<close>

definition utf8_encode_char :: "nat \<Rightarrow> nat list" where
  "utf8_encode_char c =
     (if c < 0x80 then [c]
      else if c < 0x800 then [0xC0 + c div 64, 0x80 + c mod 64]
      else if 0xD800 \<le> c \<and> c < 0xE000 then [0x3F]
      else if c < 0x10000 then
        [0xE0 + c div 4096, 0x80 + (c div 64) mod 64, 0x80 + c mod 64]
      else
        [0xF0 + c div 262144, 0x80 + (c div 4096) mod 64,
         0x80 + (c div 64) mod 64, 0x80 + c mod 64])"

definition str_encode :: "pystr \<Rightarrow> bytes" where
  "str_encode s = map of_nat (concat (map utf8_encode_char s))"

text \<open>The Unicode scalar values: the code points that are not surrogates.\<close>

definition is_scalar :: "nat \<Rightarrow> bool" where
  "is_scalar c \<longleftrightarrow> c < 0x110000 \<and> \<not> (0xD800 \<le> c \<and> c < 0xE000)"

section \<open>Utility functions\<close>

definition decode_utf8 :: "bytes \<Rightarrow> pystr" where
  "decode_utf8 data = rstrip (bytes_decode data) [0]"

definition normalize_text :: "bytes \<Rightarrow> bytes" where
  "normalize_text data =
     (let s = decode_utf8 data;
          s = strip s [0x0D, 0x0A]
      in str_encode s)"

definition is_text_mime :: "pystr \<Rightarrow> bool" where
  "is_text_mime mime =
     (if startswith mime (lit ''text/'') then True
      else if mime \<in> set [lit ''UTF8_STRING'', lit ''STRING''] then True
      else False)"

text \<open>
  The comparison key of a snapshot, as the main loop computes it for \<open>norm_w_data\<close> and
  \<open>norm_x_data\<close>: \<open>normalize_text(data) if is_text_mime(mime) else data\<close>.
\<close>

definition norm_data :: "bytes \<Rightarrow> pystr \<Rightarrow> bytes" where
  "norm_data data mime = (if is_text_mime mime then normalize_text data else data)"

section \<open>Selecting the MIME type to read\<close>

text \<open>
  \<open>list(dict.fromkeys(targets))\<close>: the keys are inserted one by one, a key already
  present keeps its place, so the first occurrence of every target is kept, in order.
\<close>

definition dict_fromkeys :: "'a list \<Rightarrow> 'a list" where
  "dict_fromkeys keys = foldl (\<lambda>d k. if k \<in> set d then d else d @ [k]) [] keys"

text \<open>The loop \<open>for t in targets: if t.startswith('image/'): return t\<close>; \<open>None\<close> when it falls through.\<close>

fun first_image :: "pystr list \<Rightarrow> pystr option" where
  "first_image [] = None"
| "first_image (t # ts) = (if startswith t (lit ''image/'') then Some t else first_image ts)"

text \<open>
  The selectors take the list that \<open>list_wayland_targets()\<close> or \<open>list_x11_targets()\<close>
  returned (the empty list when the query failed).
\<close>

definition pick_wayland_mime :: "pystr list \<Rightarrow> pystr" where
  "pick_wayland_mime targets0 =
     (let targets = dict_fromkeys targets0 in
      if lit ''text/uri-list'' \<in> set targets then lit ''text/uri-list''
      else if lit ''text/html'' \<in> set targets then lit ''text/html''
      else (case first_image targets of
              Some t \<Rightarrow> t
            | None \<Rightarrow>
                if lit ''text/plain;charset=utf-8'' \<in> set targets then lit ''text/plain;charset=utf-8''
                else if lit ''text/plain'' \<in> set targets then lit ''text/plain''
                else if lit ''UTF8_STRING'' \<in> set targets then lit ''UTF8_STRING''
                else lit ''text/plain;charset=utf-8''))"

definition pick_x11_mime :: "pystr list \<Rightarrow> pystr" where
  "pick_x11_mime targets =
     (if lit ''text/uri-list'' \<in> set targets then lit ''text/uri-list''
      else if lit ''text/html'' \<in> set targets then lit ''text/html''
      else (case first_image targets of
              Some t \<Rightarrow> t
            | None \<Rightarrow>
                if lit ''text/plain;charset=utf-8'' \<in> set targets then lit ''text/plain;charset=utf-8''
                else if lit ''text/plain'' \<in> set targets then lit ''text/plain''
                else if lit ''UTF8_STRING'' \<in> set targets then lit ''UTF8_STRING''
                else lit ''text/plain;charset=utf-8''))"

section \<open>The clipboard backends\<close>

text \<open>
  What the engine does besides updating its state: the data it hands to \<open>xclip\<close> and
  \<open>wl-copy\<close>, the lines it prints, and the tracebacks the helpers print when a
  subprocess call raises.
\<close>

datatype message =
    Tool_Missing pystr
  | Starting
  | Stripped_Wayland
  | Strip_Error_Wayland
  | Stripped_X11
  | Strip_Error_X11
  | Wayland_to_X11 pystr
  | X11_to_Wayland pystr
  | Conflict pystr

datatype effect =
    Print message
  | Traceback
  | Xclip_Write bytes pystr
  | Wl_Copy bytes pystr

text \<open>
  One answer of a backend to a read: the targets it lists, and for the type requested the
  standard output of the paste command, or \<open>None\<close> when \<open>subprocess.run\<close> raised (the
  timeout expired, the command could not be started).
\<close>

record backend_reply =
  targets :: "pystr list"
  paste :: "pystr \<Rightarrow> bytes option"

type_synonym snapshot = "bytes \<times> pystr"

definition get_wayland_clipboard :: "backend_reply \<Rightarrow> snapshot \<times> effect list" where
  "get_wayland_clipboard reply =
     (let mime = pick_wayland_mime (targets reply) in
      case paste reply mime of
        Some data \<Rightarrow> ((data, mime), [])
      | None \<Rightarrow> (([], []), [Traceback]))"

definition get_x11_clipboard :: "backend_reply \<Rightarrow> snapshot \<times> effect list" where
  "get_x11_clipboard reply =
     (let mime = pick_x11_mime (targets reply) in
      case paste reply mime of
        Some data \<Rightarrow> ((data, mime), [])
      | None \<Rightarrow> (([], []), [Traceback]))"

text \<open>
  The writers take a flag saying whether the subprocess call returns normally
  (\<open>check=True\<close> raises on a non-zero exit status); the exception is caught and a traceback
  printed.
\<close>

definition set_wayland_clipboard :: "bool \<Rightarrow> bytes \<Rightarrow> pystr \<Rightarrow> effect list" where
  "set_wayland_clipboard ok data mime =
     (let chosen_mime = (if is_text_mime mime then lit ''text/plain;charset=utf-8'' else mime)
      in if ok then [Wl_Copy data chosen_mime] else [Wl_Copy data chosen_mime, Traceback])"

definition set_x11_clipboard :: "bool \<Rightarrow> bytes \<Rightarrow> pystr \<Rightarrow> effect list" where
  "set_x11_clipboard ok data mime =
     (if ok then [Xclip_Write data mime] else [Xclip_Write data mime, Traceback])"

section \<open>The main loop\<close>

record engine_state =
  last_w_data :: bytes
  last_w_mime :: pystr
  last_x_data :: bytes
  last_x_mime :: pystr

text \<open>
  What the outside world does during one cycle: the answers of the two backends to the
  first reads and to the reads repeated after a failed HTML stripping, the text
  \<open>BeautifulSoup(...).get_text()\<close> extracts (\<open>None\<close> when it raises), and whether the
  write commands succeed.
\<close>

record cycle_env =
  wl_first :: backend_reply
  x11_first :: backend_reply
  wl_refetch :: backend_reply
  x11_refetch :: backend_reply
  soup_get_text :: "pystr \<Rightarrow> pystr option"
  xclip_ok :: bool
  wl_copy_ok :: bool

definition strip_html_wayland :: "cycle_env \<Rightarrow> snapshot \<Rightarrow> snapshot \<times> effect list" where
  "strip_html_wayland env w =
     (case w of (w_data, w_mime) \<Rightarrow>
        if w_mime = lit ''text/html'' then
          (case soup_get_text env (decode_utf8 w_data) of
             Some cleaned_text \<Rightarrow>
               ((str_encode cleaned_text, lit ''text/plain;charset=utf-8''),
                [Print Stripped_Wayland])
           | None \<Rightarrow>
               (case get_wayland_clipboard (wl_refetch env) of
                  (w', effs) \<Rightarrow> (w', Print Strip_Error_Wayland # effs)))
        else (w, []))"

definition strip_html_x11 :: "cycle_env \<Rightarrow> snapshot \<Rightarrow> snapshot \<times> effect list" where
  "strip_html_x11 env x =
     (case x of (x_data, x_mime) \<Rightarrow>
        if x_mime = lit ''text/html'' then
          (case soup_get_text env (decode_utf8 x_data) of
             Some cleaned_text \<Rightarrow>
               ((str_encode cleaned_text, lit ''text/plain;charset=utf-8''),
                [Print Stripped_X11])
           | None \<Rightarrow>
               (case get_x11_clipboard (x11_refetch env) of
                  (x', effs) \<Rightarrow> (x', Print Strip_Error_X11 # effs)))
        else (x, []))"

text \<open>The comparison and the four branches that follow it.\<close>

definition sync :: "cycle_env \<Rightarrow> engine_state \<Rightarrow> snapshot \<Rightarrow> snapshot \<Rightarrow> engine_state \<times> effect list" where
  "sync env st w x =
     (case w of (w_data, w_mime) \<Rightarrow> case x of (x_data, x_mime) \<Rightarrow>
      let norm_w_data = norm_data w_data w_mime;
          norm_x_data = norm_data x_data x_mime
      in
        if w_data \<noteq> last_w_data st \<and> norm_w_data \<noteq> norm_x_data then
          (if w_data \<noteq> last_x_data st then
             (st\<lparr>last_x_data := w_data, last_x_mime := w_mime,
                 last_w_data := w_data, last_w_mime := w_mime\<rparr>,
              Print (Wayland_to_X11 w_mime) # set_x11_clipboard (xclip_ok env) w_data w_mime)
           else (st\<lparr>last_w_data := w_data, last_w_mime := w_mime\<rparr>, []))
        else if x_data \<noteq> last_x_data st \<and> norm_x_data \<noteq> norm_w_data then
          (if x_data \<noteq> last_w_data st then
             (st\<lparr>last_w_data := x_data, last_w_mime := x_mime,
                 last_x_data := x_data, last_x_mime := x_mime\<rparr>,
              Print (X11_to_Wayland x_mime) # set_wayland_clipboard (wl_copy_ok env) x_data x_mime)
           else (st\<lparr>last_x_data := x_data, last_x_mime := x_mime\<rparr>, []))
        else if w_data \<noteq> last_w_data st \<and> x_data \<noteq> last_x_data st then
          (if w_data \<noteq> last_x_data st then
             (st\<lparr>last_x_data := w_data, last_x_mime := w_mime,
                 last_w_data := w_data, last_w_mime := w_mime\<rparr>,
              Print (Conflict w_mime) # set_x11_clipboard (xclip_ok env) w_data w_mime)
           else (st\<lparr>last_w_data := w_data, last_w_mime := w_mime\<rparr>,
                 [Print (Conflict w_mime)]))
        else
          (let st1 = (if w_data \<noteq> [] then st\<lparr>last_w_data := w_data, last_w_mime := w_mime\<rparr>
                      else st);
               st2 = (if x_data \<noteq> [] then st1\<lparr>last_x_data := x_data, last_x_mime := x_mime\<rparr>
                      else st1)
           in (st2, [])))"

text \<open>One pass through the body of \<open>while True\<close>, after \<open>clipnotify\<close> has returned.\<close>

definition cycle :: "cycle_env \<Rightarrow> engine_state \<Rightarrow> engine_state \<times> effect list" where
  "cycle env st =
     (case get_wayland_clipboard (wl_first env) of (w, e1) \<Rightarrow>
      case get_x11_clipboard (x11_first env) of (x, e2) \<Rightarrow>
      case strip_html_wayland env w of (w', e3) \<Rightarrow>
      case strip_html_x11 env x of (x', e4) \<Rightarrow>
      case sync env st w' x' of (st', e5) \<Rightarrow>
        (st', e1 @ e2 @ e3 @ e4 @ e5))"

definition initial_state :: engine_state where
  "initial_state = \<lparr>last_w_data = [], last_w_mime = [], last_x_data = [], last_x_mime = []\<rparr>"

text \<open>
  The loop runs one cycle per wake-up and never leaves by itself; it is modelled on the
  list of the environments of the wake-ups that have happened so far, and returns the state
  and the effects of every one of them.
\<close>

fun main_loop :: "engine_state \<Rightarrow> cycle_env list \<Rightarrow> (engine_state \<times> effect list) list" where
  "main_loop st [] = []"
| "main_loop st (env # envs) =
     (case cycle env st of (st', effs) \<Rightarrow> (st', effs) # main_loop st' envs)"

definition main :: "(pystr \<Rightarrow> bool) \<Rightarrow> cycle_env list \<Rightarrow> effect list \<times> (engine_state \<times> effect list) list" where
  "main command_exists wakes =
     (case find (\<lambda>tool. \<not> command_exists tool)
             [lit ''wl-copy'', lit ''wl-paste'', lit ''xclip'', lit ''clipnotify''] of
        Some tool \<Rightarrow> ([Print (Tool_Missing tool)], [])
      | None \<Rightarrow> ([Print Starting], main_loop initial_state wakes))"

subsection \<open>What a cycle compares and what it writes\<close>

text \<open>
  The snapshots of a cycle are the values of \<open>(w_data, w_mime)\<close> and \<open>(x_data, x_mime)\<close>
  when the comparison starts, that is after the reads and the HTML stripping.
\<close>

definition wayland_snapshot :: "cycle_env \<Rightarrow> snapshot" where
  "wayland_snapshot env = fst (strip_html_wayland env (fst (get_wayland_clipboard (wl_first env))))"

definition x11_snapshot :: "cycle_env \<Rightarrow> snapshot" where
  "x11_snapshot env = fst (strip_html_x11 env (fst (get_x11_clipboard (x11_first env))))"

text \<open>What the reads and the HTML stripping of a cycle print, before the comparison.\<close>

definition read_effects :: "cycle_env \<Rightarrow> effect list" where
  "read_effects env =
     snd (get_wayland_clipboard (wl_first env)) @
     snd (get_x11_clipboard (x11_first env)) @
     snd (strip_html_wayland env (fst (get_wayland_clipboard (wl_first env)))) @
     snd (strip_html_x11 env (fst (get_x11_clipboard (x11_first env))))"

datatype side = Wayland | X11

fun other :: "side \<Rightarrow> side" where
  "other Wayland = X11"
| "other X11 = Wayland"

fun remembered :: "engine_state \<Rightarrow> side \<Rightarrow> snapshot" where
  "remembered st Wayland = (last_w_data st, last_w_mime st)"
| "remembered st X11 = (last_x_data st, last_x_mime st)"

fun current :: "cycle_env \<Rightarrow> side \<Rightarrow> snapshot" where
  "current env Wayland = wayland_snapshot env"
| "current env X11 = x11_snapshot env"

fun writes_to :: "side \<Rightarrow> effect list \<Rightarrow> snapshot list" where
  "writes_to s [] = []"
| "writes_to s (Xclip_Write d m # effs) =
     (if s = X11 then (d, m) # writes_to s effs else writes_to s effs)"
| "writes_to s (Wl_Copy d m # effs) =
     (if s = Wayland then (d, m) # writes_to s effs else writes_to s effs)"
| "writes_to s (e # effs) = writes_to s effs"

subsection \<open>Environments for examples\<close>

definition reply :: "pystr list \<Rightarrow> bytes option \<Rightarrow> backend_reply" where
  "reply ts out = \<lparr>targets = ts, paste = (\<lambda>mime. out)\<rparr>"

definition plain_env :: "backend_reply \<Rightarrow> backend_reply \<Rightarrow> cycle_env" where
  "plain_env w x =
     \<lparr>wl_first = w, x11_first = x, wl_refetch = w, x11_refetch = x,
      soup_get_text = (\<lambda>html. None), xclip_ok = True, wl_copy_ok = True\<rparr>"

text \<open>
  An environment in which the HTML extraction raises; the third and fourth replies answer
  the reads repeated after that.
\<close>

definition refetch_env ::
  "backend_reply \<Rightarrow> backend_reply \<Rightarrow> backend_reply \<Rightarrow> backend_reply \<Rightarrow> cycle_env" where
  "refetch_env w x w' x' =
     \<lparr>wl_first = w, x11_first = x, wl_refetch = w', x11_refetch = x',
      soup_get_text = (\<lambda>html. None), xclip_ok = True, wl_copy_ok = True\<rparr>"

text \<open>
  An environment with a given HTML extraction; the repeated reads are answered like the
  first ones.
\<close>

definition soup_env ::
  "(pystr \<Rightarrow> pystr option) \<Rightarrow> backend_reply \<Rightarrow> backend_reply \<Rightarrow> cycle_env" where
  "soup_env get_text w x =
     \<lparr>wl_first = w, x11_first = x, wl_refetch = w, x11_refetch = x,
      soup_get_text = get_text, xclip_ok = True, wl_copy_ok = True\<rparr>"

text \<open>The same cycle with other outcomes of the two write commands.\<close>

definition with_write_outcome :: "bool \<Rightarrow> bool \<Rightarrow> cycle_env \<Rightarrow> cycle_env" where
  "with_write_outcome a b env = env\<lparr>xclip_ok := a, wl_copy_ok := b\<rparr>"

section \<open>The priority order of the specification\<close>

text \<open>
  The selection as the specification words it: a fixed list of rules, each an exact match
  or a prefix match; the first rule that matches decides, a prefix rule by the first entry
  it matches; when no rule matches the default is returned.
\<close>

datatype rule = Exact pystr | Prefix pystr

definition priority_order :: "rule list" where
  "priority_order =
     [Exact (lit ''text/uri-list''), Exact (lit ''text/html''), Prefix (lit ''image/''),
      Exact (lit ''text/plain;charset=utf-8''), Exact (lit ''text/plain''),
      Exact (lit ''UTF8_STRING'')]"

fun rule_match :: "rule \<Rightarrow> pystr list \<Rightarrow> pystr option" where
  "rule_match (Exact m) available = (if m \<in> set available then Some m else None)"
| "rule_match (Prefix p) available = find (\<lambda>t. startswith t p) available"

fun first_match :: "rule list \<Rightarrow> pystr list \<Rightarrow> pystr option" where
  "first_match [] available = None"
| "first_match (r # rs) available =
     (case rule_match r available of Some m \<Rightarrow> Some m | None \<Rightarrow> first_match rs available)"

definition select_spec :: "pystr list \<Rightarrow> pystr" where
  "select_spec available =
     (case first_match priority_order available of
        Some m \<Rightarrow> m
      | None \<Rightarrow> lit ''text/plain;charset=utf-8'')"

section \<open>Literals and the normalizer on ASCII data\<close>

lemma lit_eq_iff: "lit a = lit b \<longleftrightarrow> a = b"
  by (simp add: lit_def inj_map_eq_map [OF inj_of_char])

lemma length_lit: "length (lit a) = length a"
  by (simp add: lit_def)

lemma startswith_lit: "startswith (lit a) (lit b) \<longleftrightarrow> take (length b) a = b"
proof -
  have "take (length b) (lit a) = lit (take (length b) a)"
    by (simp add: lit_def take_map)
  then show ?thesis
    by (simp add: startswith_def length_lit lit_eq_iff)
qed

lemma lit_Nil: "lit a = [] \<longleftrightarrow> a = []" "[] = lit a \<longleftrightarrow> a = []"
  by (auto simp: lit_def)

lemma is_text_mime_lit:
  "is_text_mime (lit a) \<longleftrightarrow>
     take (length ''text/'') a = ''text/'' \<or> a = ''UTF8_STRING'' \<or> a = ''STRING''"
  unfolding is_text_mime_def startswith_lit by (simp add: lit_eq_iff)

lemma is_text_mime_Nil: "\<not> is_text_mime []"
  by (simp add: is_text_mime_def startswith_def lit_def)

lemma utf8_decode_ascii: "\<forall>b \<in> set bs. b < 0x80 \<Longrightarrow> utf8_decode bs = bs"
  by (induction bs) (simp_all add: utf8_step_def)

lemma bytes_decode_ascii:
  assumes "\<forall>b \<in> set data. b < 0x80"
  shows "bytes_decode data = map unat data"
proof -
  have "\<forall>b \<in> set (map unat data). b < 0x80"
    using assms by (auto simp: word_less_nat_alt)
  then show ?thesis
    by (simp only: bytes_decode_def utf8_decode_ascii)
qed

lemma str_encode_ascii: "\<forall>c \<in> set s. c < 0x80 \<Longrightarrow> str_encode s = map of_nat s"
  by (induction s) (simp_all add: str_encode_def utf8_encode_char_def)

lemma set_rstrip: "set (rstrip s chars) \<subseteq> set s"
  using set_dropWhileD [of _ "\<lambda>c. c \<in> set chars" "rev s"] by (auto simp: rstrip_def)

lemma set_lstrip: "set (lstrip s chars) \<subseteq> set s"
  using set_dropWhileD [of _ "\<lambda>c. c \<in> set chars" s] by (auto simp: lstrip_def)

lemma set_strip: "set (strip s chars) \<subseteq> set s"
  using set_rstrip [of "lstrip s chars" chars] set_lstrip [of s chars] by (auto simp: strip_def)

lemma normalize_text_eq:
  "normalize_text data = str_encode (strip (rstrip (bytes_decode data) [0]) [0x0D, 0x0A])"
  by (simp add: normalize_text_def decode_utf8_def)

lemma normalize_text_ascii:
  assumes "\<forall>b \<in> set data. b < 0x80"
  shows "normalize_text data = map of_nat (strip (rstrip (map unat data) [0]) [0x0D, 0x0A])"
proof -
  have "\<forall>c \<in> set (map unat data). c < 0x80"
    using assms by (auto simp: word_less_nat_alt)
  then have "\<forall>c \<in> set (strip (rstrip (map unat data) [0]) [0x0D, 0x0A]). c < 0x80"
    using set_strip [of "rstrip (map unat data) [0]" "[0x0D, 0x0A]"] set_rstrip [of "map unat data" "[0]"]
    by blast
  then show ?thesis
    by (simp only: normalize_text_eq bytes_decode_ascii [OF assms] str_encode_ascii)
qed

lemma normalize_text_one: "normalize_text (blit ''one'') = blit ''one''"
  by (subst normalize_text_ascii) (simp_all add: blit_def rstrip_def strip_def lstrip_def)

lemma normalize_text_two: "normalize_text (blit ''two'') = blit ''two''"
  by (subst normalize_text_ascii) (simp_all add: blit_def rstrip_def strip_def lstrip_def)

lemma one_two: "blit ''one'' \<noteq> blit ''two''"
  by (simp add: blit_def)

lemma normalize_text_Nil: "normalize_text [] = []"
  by (simp add: normalize_text_eq bytes_decode_def rstrip_def strip_def lstrip_def str_encode_def)

lemma normalize_text_hi_nl: "normalize_text (blit ''hi'' @ [0x0A]) = blit ''hi''"
  by (subst normalize_text_ascii) (simp_all add: blit_def rstrip_def strip_def lstrip_def)

lemma normalize_text_hi: "normalize_text (blit ''hi'') = blit ''hi''"
  by (subst normalize_text_ascii) (simp_all add: blit_def rstrip_def strip_def lstrip_def)

lemma normalize_text_nul_nl: "normalize_text [0, 0x0A] = [0]"
  by (subst normalize_text_ascii) (simp_all add: rstrip_def strip_def lstrip_def)

lemma normalize_text_nul: "normalize_text [0] = []"
  by (subst normalize_text_ascii) (simp_all add: rstrip_def strip_def lstrip_def)

section \<open>The decoder produces scalar values\<close>

lemma is_scalar_replacement: "is_scalar replacement_char"
  by (simp add: is_scalar_def replacement_char_def)

lemma scalar2:
  assumes "b < 0xE0" "b2 < 0xC0"
  shows "is_scalar (code_point2 b b2)"
  using assms unfolding is_scalar_def code_point2_def by linarith

lemma scalar3:
  assumes "0xE0 \<le> b" "b < 0xF0" "b2 < 0xC0" "b3 < 0xC0" "\<not> (b = 0xED \<and> 0xA0 \<le> b2)"
  shows "is_scalar (code_point3 b b2 b3)"
proof -
  consider "b \<le> 0xEC" | "b = 0xED" "b2 < 0xA0" | "0xEE \<le> b"
    using assms by linarith
  then show ?thesis
  proof cases
    case 1
    with assms show ?thesis unfolding is_scalar_def code_point3_def by linarith
  next
    case 2
    with assms show ?thesis unfolding is_scalar_def code_point3_def by linarith
  next
    case 3
    with assms show ?thesis unfolding is_scalar_def code_point3_def by linarith
  qed
qed

lemma scalar4:
  assumes "0xF0 \<le> b" "b < 0xF5" "0x80 \<le> b2" "b2 < 0xC0" "b3 < 0xC0" "b4 < 0xC0"
    "\<not> (b = 0xF0 \<and> b2 < 0x90)" "\<not> (b = 0xF4 \<and> 0x90 \<le> b2)"
  shows "is_scalar (code_point4 b b2 b3 b4)"
proof -
  consider "b = 0xF0" "0x90 \<le> b2" | "0xF1 \<le> b" "b \<le> 0xF3" | "b = 0xF4" "b2 < 0x90"
    using assms by linarith
  then show ?thesis
  proof cases
    case 1
    with assms show ?thesis unfolding is_scalar_def code_point4_def by linarith
  next
    case 2
    with assms show ?thesis unfolding is_scalar_def code_point4_def by linarith
  next
    case 3
    with assms show ?thesis unfolding is_scalar_def code_point4_def by linarith
  qed
qed

lemma utf8_step2_scalar: "0xC2 \<le> b \<Longrightarrow> b < 0xE0 \<Longrightarrow> is_scalar (fst (utf8_step2 b bs))"
  by (auto simp: utf8_step2_def is_continuation_def is_scalar_replacement
      split: list.splits intro!: scalar2)

lemma utf8_step3_scalar: "0xE0 \<le> b \<Longrightarrow> b < 0xF0 \<Longrightarrow> is_scalar (fst (utf8_step3 b bs))"
  by (auto simp: utf8_step3_def is_continuation_def is_scalar_replacement
      split: list.splits intro!: scalar3)

lemma utf8_step4_scalar: "0xF0 \<le> b \<Longrightarrow> b < 0xF5 \<Longrightarrow> is_scalar (fst (utf8_step4 b bs))"
  by (auto simp: utf8_step4_def is_continuation_def is_scalar_replacement
      split: list.splits intro!: scalar4)

lemma utf8_step_scalar: "is_scalar (fst (utf8_step b bs))"
proof -
  consider "b < 0x80" | "0x80 \<le> b" "b < 0xC2" | "0xC2 \<le> b" "b < 0xE0"
    | "0xE0 \<le> b" "b < 0xF0" | "0xF0 \<le> b" "b < 0xF5" | "0xF5 \<le> b"
    by linarith
  then show ?thesis
  proof cases
    case 1
    then show ?thesis by (simp add: utf8_step_def is_scalar_def)
  next
    case 2
    then show ?thesis by (simp add: utf8_step_def is_scalar_def replacement_char_def)
  next
    case 3
    then show ?thesis using utf8_step2_scalar [of b bs] by (simp add: utf8_step_def)
  next
    case 4
    then show ?thesis using utf8_step3_scalar [of b bs] by (simp add: utf8_step_def)
  next
    case 5
    then show ?thesis using utf8_step4_scalar [of b bs] by (simp add: utf8_step_def)
  next
    case 6
    then show ?thesis by (simp add: utf8_step_def is_scalar_def replacement_char_def)
  qed
qed

lemma utf8_decode_scalar: "\<forall>c \<in> set (utf8_decode bs). is_scalar c"
proof (induction bs rule: utf8_decode.induct)
  case 1
  then show ?case by simp
next
  case (2 b bs)
  obtain c k where ck: "utf8_step b bs = (c, k)" by (cases "utf8_step b bs")
  with utf8_step_scalar [of b bs] have "is_scalar c" by simp
  moreover from 2 ck have "\<forall>c \<in> set (utf8_decode (drop (k - 1) bs)). is_scalar c"
    by simp
  ultimately show ?case using ck by simp
qed

section \<open>Decoding an encoded string\<close>

lemma step_encode1:
  assumes "c < 0x80"
  shows "utf8_step c rest = (c, 1)"
  using assms by (simp add: utf8_step_def)

lemma step_encode2:
  assumes "0x80 \<le> c" "c < 0x800"
  shows "utf8_step (0xC0 + c div 64) ((0x80 + c mod 64) # rest) = (c, 2)"
proof -
  have b: "0xC2 \<le> 0xC0 + c div 64" "0xC0 + c div 64 < 0xE0"
    using assms by linarith+
  have b2: "is_continuation (0x80 + c mod 64)"
    unfolding is_continuation_def by linarith
  have "code_point2 (0xC0 + c div 64) (0x80 + c mod 64) = c"
    unfolding code_point2_def by simp
  with b b2 show ?thesis
    by (simp add: utf8_step_def utf8_step2_def)
qed

lemma lead3_lo: "32 \<le> (d::nat) \<Longrightarrow> \<not> (0xE0 + d div 64 = 0xE0 \<and> 0x80 + d mod 64 < 0xA0)"
proof
  assume a: "32 \<le> d" and "0xE0 + d div 64 = 0xE0 \<and> 0x80 + d mod 64 < 0xA0"
  then have "d div 64 = 0" "d mod 64 < 32" by simp_all
  moreover have "d = d div 64 * 64 + d mod 64" by simp
  ultimately have "d < 32" by linarith
  with a show False by simp
qed

lemma lead3_hi:
  "\<not> (864 \<le> (d::nat) \<and> d < 896) \<Longrightarrow> \<not> (0xE0 + d div 64 = 0xED \<and> 0xA0 \<le> 0x80 + d mod 64)"
proof
  assume a: "\<not> (864 \<le> d \<and> d < 896)" and "0xE0 + d div 64 = 0xED \<and> 0xA0 \<le> 0x80 + d mod 64"
  then have "d div 64 = 13" "32 \<le> d mod 64" by simp_all
  moreover have "d = d div 64 * 64 + d mod 64" by simp
  moreover have "d mod 64 < 64" by simp
  ultimately have "864 \<le> d \<and> d < 896" by linarith
  with a show False by simp
qed

lemma lead4_lo: "16 \<le> (d::nat) \<Longrightarrow> \<not> (0xF0 + d div 64 = 0xF0 \<and> 0x80 + d mod 64 < 0x90)"
proof
  assume a: "16 \<le> d" and "0xF0 + d div 64 = 0xF0 \<and> 0x80 + d mod 64 < 0x90"
  then have "d div 64 = 0" "d mod 64 < 16" by simp_all
  moreover have "d = d div 64 * 64 + d mod 64" by simp
  ultimately have "d < 16" by linarith
  with a show False by simp
qed

lemma lead4_hi: "(d::nat) < 272 \<Longrightarrow> \<not> (0xF0 + d div 64 = 0xF4 \<and> 0x90 \<le> 0x80 + d mod 64)"
proof
  assume a: "d < 272" and "0xF0 + d div 64 = 0xF4 \<and> 0x90 \<le> 0x80 + d mod 64"
  then have "d div 64 = 4" "16 \<le> d mod 64" by simp_all
  moreover have "d = d div 64 * 64 + d mod 64" by simp
  ultimately have "272 \<le> d" by linarith
  with a show False by simp
qed

lemma split64: "(n::nat) = n div 64 * 64 + n mod 64"
  by simp

lemma combine3: "(c::nat) = D * 64 + M \<Longrightarrow> D = A * 64 + B \<Longrightarrow> c = A * 4096 + B * 64 + M"
  by simp

lemma split3: "(c::nat) = c div 4096 * 4096 + c div 64 mod 64 * 64 + c mod 64"
proof -
  have "c div 4096 = c div 64 div 64"
    by (simp add: div_mult2_eq [symmetric])
  with combine3 [OF split64 [of c] split64 [of "c div 64"]] show ?thesis
    by simp
qed

lemma combine4:
  "(c::nat) = E * 4096 + C * 64 + M \<Longrightarrow> E = A * 64 + B \<Longrightarrow> c = A * 262144 + B * 4096 + C * 64 + M"
  by simp

lemma split4:
  "(c::nat) = c div 262144 * 262144 + c div 4096 mod 64 * 4096 + c div 64 mod 64 * 64 + c mod 64"
proof -
  have "c div 262144 = c div 4096 div 64"
    by (simp add: div_mult2_eq [symmetric])
  with combine4 [OF split3 [of c] split64 [of "c div 4096"]] show ?thesis
    by simp
qed

lemma step_encode3:
  assumes "0x800 \<le> c" "c < 0x10000" "\<not> (0xD800 \<le> c \<and> c < 0xE000)"
  shows "utf8_step (0xE0 + c div 4096) ((0x80 + (c div 64) mod 64) # (0x80 + c mod 64) # rest)
         = (c, 3)"
proof -
  let ?b = "0xE0 + c div 4096" and ?b2 = "0x80 + (c div 64) mod 64" and ?b3 = "0x80 + c mod 64"
  have b: "0xE0 \<le> ?b" "?b < 0xF0"
    using assms by linarith+
  have b2: "is_continuation ?b2" and b3: "is_continuation ?b3"
    unfolding is_continuation_def by linarith+
  have d: "c div 4096 = (c div 64) div 64"
    by (simp add: div_mult2_eq [symmetric])
  have "32 \<le> c div 64" "\<not> (864 \<le> c div 64 \<and> c div 64 < 896)"
    using assms by linarith+
  then have lo: "\<not> (?b = 0xE0 \<and> ?b2 < 0xA0)" and hi: "\<not> (?b = 0xED \<and> 0xA0 \<le> ?b2)"
    unfolding d by (simp_all only: lead3_lo lead3_hi not_False_eq_True)
  have "c = (c div 4096) * 4096 + ((c div 64) mod 64) * 64 + c mod 64"
    by (rule split3)
  then have cp: "code_point3 ?b ?b2 ?b3 = c"
    unfolding code_point3_def by simp
  have "utf8_step3 ?b (?b2 # ?b3 # rest) = (c, 3)"
    unfolding utf8_step3_def using b2 b3 lo hi cp by simp
  with b show ?thesis
    by (simp add: utf8_step_def)
qed

lemma step_encode4:
  assumes "0x10000 \<le> c" "c < 0x110000"
  shows "utf8_step (0xF0 + c div 262144)
           ((0x80 + (c div 4096) mod 64) # (0x80 + (c div 64) mod 64) # (0x80 + c mod 64) # rest)
         = (c, 4)"
proof -
  let ?b = "0xF0 + c div 262144" and ?b2 = "0x80 + (c div 4096) mod 64"
    and ?b3 = "0x80 + (c div 64) mod 64" and ?b4 = "0x80 + c mod 64"
  have b: "0xF0 \<le> ?b" "?b < 0xF5"
    using assms by linarith+
  have b2: "is_continuation ?b2" and b3: "is_continuation ?b3" and b4: "is_continuation ?b4"
    unfolding is_continuation_def by linarith+
  have d: "c div 262144 = (c div 4096) div 64"
    by (simp add: div_mult2_eq [symmetric])
  have e: "c div 4096 = (c div 64) div 64"
    by (simp add: div_mult2_eq [symmetric])
  have "16 \<le> c div 4096" "c div 4096 < 272"
    using assms by linarith+
  then have lo: "\<not> (?b = 0xF0 \<and> ?b2 < 0x90)" and hi: "\<not> (?b = 0xF4 \<and> 0x90 \<le> ?b2)"
    unfolding d by (simp_all only: lead4_lo lead4_hi not_False_eq_True)
  have "c = (c div 262144) * 262144 + ((c div 4096) mod 64) * 4096 + ((c div 64) mod 64) * 64 + c mod 64"
    by (rule split4)
  then have cp: "code_point4 ?b ?b2 ?b3 ?b4 = c"
    unfolding code_point4_def by simp
  have "utf8_step4 ?b (?b2 # ?b3 # ?b4 # rest) = (c, 4)"
    unfolding utf8_step4_def using b2 b3 b4 lo hi cp by simp
  with b show ?thesis
    by (simp add: utf8_step_def)
qed

lemma decode_encode_char:
  assumes "is_scalar c"
  shows "utf8_decode (utf8_encode_char c @ rest) = c # utf8_decode rest"
proof -
  consider "c < 0x80" | "0x80 \<le> c" "c < 0x800"
    | "0x800 \<le> c" "c < 0xD800" | "0xE000 \<le> c" "c < 0x10000"
    | "0x10000 \<le> c" "c < 0x110000"
    using assms unfolding is_scalar_def by linarith
  then show ?thesis
  proof cases
    case 1
    then show ?thesis by (simp add: utf8_encode_char_def step_encode1)
  next
    case 2
    then show ?thesis by (simp add: utf8_encode_char_def step_encode2)
  next
    case 3
    then show ?thesis by (simp add: utf8_encode_char_def step_encode3)
  next
    case 4
    then show ?thesis by (simp add: utf8_encode_char_def step_encode3)
  next
    case 5
    then show ?thesis by (simp add: utf8_encode_char_def step_encode4)
  qed
qed

lemma decode_encode:
  "\<forall>c \<in> set s. is_scalar c \<Longrightarrow> utf8_decode (concat (map utf8_encode_char s)) = s"
  by (induction s) (simp_all add: decode_encode_char)

lemma encode_char_byte: "is_scalar c \<Longrightarrow> \<forall>b \<in> set (utf8_encode_char c). b < 256"
  unfolding is_scalar_def utf8_encode_char_def by (simp; linarith)

section \<open>Stripping characters\<close>

lemma rstrip_self_iff: "rstrip s chars = s \<longleftrightarrow> s = [] \<or> last s \<notin> set chars"
proof -
  have "rstrip s chars = s \<longleftrightarrow> dropWhile (\<lambda>c. c \<in> set chars) (rev s) = rev s"
    unfolding rstrip_def by (metis rev_rev_ident)
  also have "\<dots> \<longleftrightarrow> rev s = [] \<or> hd (rev s) \<notin> set chars"
    by (rule dropWhile_eq_self_iff)
  finally show ?thesis by (auto simp: hd_rev)
qed

lemma lstrip_self_iff: "lstrip s chars = s \<longleftrightarrow> s = [] \<or> hd s \<notin> set chars"
  unfolding lstrip_def by (rule dropWhile_eq_self_iff)

lemma rstrip_last: "rstrip s chars = [] \<or> last (rstrip s chars) \<notin> set chars"
proof (cases "rstrip s chars = []")
  case False
  then have "dropWhile (\<lambda>c. c \<in> set chars) (rev s) \<noteq> []"
    by (simp add: rstrip_def)
  then have "hd (dropWhile (\<lambda>c. c \<in> set chars) (rev s)) \<notin> set chars"
    by (rule hd_dropWhile)
  then show ?thesis
    by (simp add: rstrip_def last_rev)
qed simp

lemma lstrip_hd: "lstrip s chars = [] \<or> hd (lstrip s chars) \<notin> set chars"
  using hd_dropWhile [of "\<lambda>c. c \<in> set chars" s] by (auto simp: lstrip_def)

lemma rstrip_take: "rstrip s chars = take (length (rstrip s chars)) s"
proof -
  let ?n = "length (takeWhile (\<lambda>c. c \<in> set chars) (rev s))"
  have "rstrip s chars = rev (drop ?n (rev s))"
    by (simp add: rstrip_def dropWhile_eq_drop)
  also have "\<dots> = take (length s - ?n) s"
    by (simp add: rev_drop)
  finally have eq: "rstrip s chars = take (length s - ?n) s" .
  then have "length (rstrip s chars) = length s - ?n"
    by simp
  with eq show ?thesis by simp
qed

lemma rstrip_hd: "rstrip s chars \<noteq> [] \<Longrightarrow> hd (rstrip s chars) = hd s"
  using rstrip_take [of s chars] by (metis hd_take length_greater_0_conv)

lemma strip_idem: "strip (strip s chars) chars = strip s chars"
proof -
  let ?u = "lstrip s chars" and ?t = "strip s chars"
  have t: "?t = rstrip ?u chars" by (simp add: strip_def)
  have "?t = [] \<or> hd ?t \<notin> set chars"
  proof (cases "?t = []")
    case False
    with t have "hd ?t = hd ?u" "?u \<noteq> []"
      using rstrip_hd [of ?u chars] rstrip_take [of ?u chars] by auto
    with lstrip_hd [of s chars] show ?thesis by simp
  qed simp
  then have "lstrip ?t chars = ?t"
    by (simp add: lstrip_self_iff)
  moreover have "rstrip ?t chars = ?t"
    using rstrip_last [of ?u chars] by (simp add: rstrip_self_iff t)
  ultimately show ?thesis
    by (simp add: strip_def [of ?t])
qed

section \<open>The normalizer applied twice\<close>

lemma bytes_decode_scalar: "\<forall>c \<in> set (bytes_decode data). is_scalar c"
  unfolding bytes_decode_def by (rule utf8_decode_scalar)

lemma unat_of_nat_bytes:
  "\<forall>b \<in> set ns. b < 256 \<Longrightarrow> map unat (map of_nat ns :: bytes) = ns"
  by (induction ns) (simp_all add: unat_of_nat)

lemma bytes_decode_str_encode:
  assumes "\<forall>c \<in> set s. is_scalar c"
  shows "bytes_decode (str_encode s) = s"
proof -
  have "\<forall>b \<in> set (concat (map utf8_encode_char s)). b < 256"
    using assms encode_char_byte by auto
  then have "map unat (str_encode s) = concat (map utf8_encode_char s)"
    unfolding str_encode_def by (rule unat_of_nat_bytes)
  with assms show ?thesis
    by (simp add: bytes_decode_def decode_encode)
qed

lemma str_encode_append: "str_encode (s @ t) = str_encode s @ str_encode t"
  by (simp add: str_encode_def)

lemma str_encode_nul: "str_encode [0] = [0]"
  by (simp add: str_encode_def utf8_encode_char_def)

lemma str_encode_last_nul:
  assumes "s \<noteq> []" "last s = 0"
  shows "str_encode s \<noteq> [] \<and> last (str_encode s) = 0"
proof -
  from assms have "s = butlast s @ [0]"
    by (metis append_butlast_last_id)
  then have "str_encode s = str_encode (butlast s) @ [0]"
    by (metis str_encode_append str_encode_nul)
  then show ?thesis by simp
qed

lemma normalize_text_idem:
  assumes "normalize_text x = [] \<or> last (normalize_text x) \<noteq> 0"
  shows "normalize_text (normalize_text x) = normalize_text x"
proof -
  let ?t = "strip (rstrip (bytes_decode x) [0]) [0x0D, 0x0A]"
  have nx: "normalize_text x = str_encode ?t"
    by (rule normalize_text_eq)
  have "set ?t \<subseteq> set (bytes_decode x)"
    using set_strip [of "rstrip (bytes_decode x) [0]" "[0x0D, 0x0A]"]
      set_rstrip [of "bytes_decode x" "[0]"] by blast
  with bytes_decode_scalar [of x] have "\<forall>c \<in> set ?t. is_scalar c"
    by blast
  then have dec: "bytes_decode (str_encode ?t) = ?t"
    by (rule bytes_decode_str_encode)
  have "?t = [] \<or> last ?t \<noteq> 0"
    using assms str_encode_last_nul [of ?t] unfolding nx by blast
  then have "rstrip ?t [0] = ?t"
    by (simp add: rstrip_self_iff)
  moreover have "strip ?t [0x0D, 0x0A] = ?t"
    by (rule strip_idem)
  ultimately have "normalize_text (str_encode ?t) = str_encode ?t"
    by (simp only: normalize_text_eq [of "str_encode ?t"] dec)
  then show ?thesis
    by (simp only: nx)
qed

section \<open>The two selectors\<close>

lemma first_image_find: "first_image ts = find (\<lambda>t. startswith t (lit ''image/'')) ts"
  by (induction ts) simp_all

lemma first_image_append:
  "first_image (xs @ ys) = (case first_image xs of Some t \<Rightarrow> Some t | None \<Rightarrow> first_image ys)"
  by (induction xs) simp_all

lemma first_image_None: "first_image ts = None \<longleftrightarrow> (\<forall>t \<in> set ts. \<not> startswith t (lit ''image/''))"
  by (induction ts) simp_all

lemma fromkeys_foldl_set:
  "set (foldl (\<lambda>d k. if k \<in> set d then d else d @ [k]) acc ks) = set acc \<union> set ks"
  by (induction ks arbitrary: acc) auto

lemma fromkeys_foldl_first_image:
  "first_image (foldl (\<lambda>d k. if k \<in> set d then d else d @ [k]) acc ks) =
     (case first_image acc of Some t \<Rightarrow> Some t | None \<Rightarrow> first_image ks)"
proof (induction ks arbitrary: acc)
  case Nil
  then show ?case by (simp split: option.splits)
next
  case (Cons k ks)
  show ?case
  proof (cases "k \<in> set acc")
    case True
    then have "first_image acc = None \<Longrightarrow> \<not> startswith k (lit ''image/'')"
      by (simp add: first_image_None)
    with True Cons.IH [of acc] show ?thesis
      by (auto split: option.splits)
  next
    case False
    with Cons.IH [of "acc @ [k]"] show ?thesis
      by (auto simp: first_image_append split: option.splits)
  qed
qed

lemma set_dict_fromkeys: "set (dict_fromkeys ts) = set ts"
  by (simp add: dict_fromkeys_def fromkeys_foldl_set)

lemma first_image_dict_fromkeys: "first_image (dict_fromkeys ts) = first_image ts"
  by (simp add: dict_fromkeys_def fromkeys_foldl_first_image)

lemma pick_wayland_x11: "pick_wayland_mime ts = pick_x11_mime ts"
  by (simp add: pick_wayland_mime_def pick_x11_mime_def Let_def set_dict_fromkeys
      first_image_dict_fromkeys)

lemma pick_x11_spec: "pick_x11_mime ts = select_spec ts"
  by (simp add: pick_x11_mime_def select_spec_def priority_order_def first_image_find
      split: option.splits)

lemma pick_x11_plain: "pick_x11_mime [lit ''text/plain''] = lit ''text/plain''"
  by (simp add: pick_x11_mime_def lit_eq_iff startswith_lit)

section \<open>The cycle and its comparison\<close>

lemma cycle_eq:
  "cycle env st =
     (fst (sync env st (wayland_snapshot env) (x11_snapshot env)),
      read_effects env @ snd (sync env st (wayland_snapshot env) (x11_snapshot env)))"
  by (simp add: cycle_def wayland_snapshot_def x11_snapshot_def read_effects_def split: prod.splits)

lemma writes_to_append: "writes_to s (xs @ ys) = writes_to s xs @ writes_to s ys"
  by (induction s xs rule: writes_to.induct) auto

lemma writes_to_get_wayland: "writes_to s (snd (get_wayland_clipboard r)) = []"
  by (simp add: get_wayland_clipboard_def Let_def split: option.splits)

lemma writes_to_get_x11: "writes_to s (snd (get_x11_clipboard r)) = []"
  by (simp add: get_x11_clipboard_def Let_def split: option.splits)

lemma writes_to_strip_wayland: "writes_to s (snd (strip_html_wayland env w)) = []"
  using writes_to_get_wayland [of s "wl_refetch env"]
  by (auto simp: strip_html_wayland_def split: prod.splits option.splits)

lemma writes_to_strip_x11: "writes_to s (snd (strip_html_x11 env w)) = []"
  using writes_to_get_x11 [of s "x11_refetch env"]
  by (auto simp: strip_html_x11_def split: prod.splits option.splits)

lemma writes_to_read_effects: "writes_to s (read_effects env) = []"
  by (simp add: read_effects_def writes_to_append writes_to_get_wayland writes_to_get_x11
      writes_to_strip_wayland writes_to_strip_x11)

lemma writes_to_cycle:
  "writes_to s (snd (cycle env st)) =
   writes_to s (snd (sync env st (wayland_snapshot env) (x11_snapshot env)))"
  by (simp add: cycle_eq writes_to_append writes_to_read_effects)

lemma writes_to_set_x11:
  "writes_to s (set_x11_clipboard ok d m) = (if s = X11 then [(d, m)] else [])"
  by (simp add: set_x11_clipboard_def)

lemma writes_to_set_wayland:
  "writes_to s (set_wayland_clipboard ok d m) =
     (if s = Wayland then [(d, if is_text_mime m then lit ''text/plain;charset=utf-8'' else m)] else [])"
  by (simp add: set_wayland_clipboard_def)

lemma cycle_state:
  "fst (cycle env st) = fst (sync env st (wayland_snapshot env) (x11_snapshot env))"
  by (simp add: cycle_eq)


lemma snapshots_write_flags:
  "wayland_snapshot (env\<lparr>xclip_ok := a, wl_copy_ok := b\<rparr>) = wayland_snapshot env"
  "x11_snapshot (env\<lparr>xclip_ok := a, wl_copy_ok := b\<rparr>) = x11_snapshot env"
  by (simp_all add: wayland_snapshot_def x11_snapshot_def strip_html_wayland_def strip_html_x11_def
      split: prod.splits option.splits)

lemma sync_state_write_flags:
  "fst (sync (env\<lparr>xclip_ok := a, wl_copy_ok := b\<rparr>) st w x) = fst (sync env st w x)"
  by (cases w; cases x) (simp add: sync_def Let_def if_distrib [where f = fst])



lemma sync_cases [case_names A_write A_skip B_write B_skip C_write C_skip D]:
  fixes env st wd wm xd xm
  defines "r \<equiv> sync env st (wd, wm) (xd, xm)"
  defines "both \<equiv> st\<lparr>last_x_data := wd, last_x_mime := wm, last_w_data := wd, last_w_mime := wm\<rparr>"
  obtains
    (A_write) "wd \<noteq> last_w_data st" "norm_data wd wm \<noteq> norm_data xd xm" "wd \<noteq> last_x_data st"
      "r = (both, Print (Wayland_to_X11 wm) # set_x11_clipboard (xclip_ok env) wd wm)"
  | (A_skip) "wd \<noteq> last_w_data st" "norm_data wd wm \<noteq> norm_data xd xm" "wd = last_x_data st"
      "r = (st\<lparr>last_w_data := wd, last_w_mime := wm\<rparr>, [])"
  | (B_write) "wd = last_w_data st" "xd \<noteq> last_x_data st" "norm_data wd wm \<noteq> norm_data xd xm"
      "xd \<noteq> last_w_data st"
      "r = (st\<lparr>last_w_data := xd, last_w_mime := xm, last_x_data := xd, last_x_mime := xm\<rparr>,
            Print (X11_to_Wayland xm) # set_wayland_clipboard (wl_copy_ok env) xd xm)"
  | (B_skip) "wd = last_w_data st" "xd \<noteq> last_x_data st" "norm_data wd wm \<noteq> norm_data xd xm"
      "xd = last_w_data st"
      "r = (st\<lparr>last_x_data := xd, last_x_mime := xm\<rparr>, [])"
  | (C_write) "wd \<noteq> last_w_data st" "xd \<noteq> last_x_data st" "norm_data wd wm = norm_data xd xm"
      "wd \<noteq> last_x_data st"
      "r = (both, Print (Conflict wm) # set_x11_clipboard (xclip_ok env) wd wm)"
  | (C_skip) "wd \<noteq> last_w_data st" "xd \<noteq> last_x_data st" "norm_data wd wm = norm_data xd xm"
      "wd = last_x_data st"
      "r = (st\<lparr>last_w_data := wd, last_w_mime := wm\<rparr>, [Print (Conflict wm)])"
  | (D) "wd = last_w_data st \<or> xd = last_x_data st"
      "wd = last_w_data st \<or> norm_data wd wm = norm_data xd xm"
      "xd = last_x_data st \<or> norm_data wd wm = norm_data xd xm"
      "r = (let st1 = (if wd \<noteq> [] then st\<lparr>last_w_data := wd, last_w_mime := wm\<rparr> else st);
                st2 = (if xd \<noteq> [] then st1\<lparr>last_x_data := xd, last_x_mime := xm\<rparr> else st1)
            in (st2, []))"
proof -
  have unfold: "r =
     (if wd \<noteq> last_w_data st \<and> norm_data wd wm \<noteq> norm_data xd xm then
          (if wd \<noteq> last_x_data st then
             (both, Print (Wayland_to_X11 wm) # set_x11_clipboard (xclip_ok env) wd wm)
           else (st\<lparr>last_w_data := wd, last_w_mime := wm\<rparr>, []))
        else if xd \<noteq> last_x_data st \<and> norm_data xd xm \<noteq> norm_data wd wm then
          (if xd \<noteq> last_w_data st then
             (st\<lparr>last_w_data := xd, last_w_mime := xm, last_x_data := xd, last_x_mime := xm\<rparr>,
              Print (X11_to_Wayland xm) # set_wayland_clipboard (wl_copy_ok env) xd xm)
           else (st\<lparr>last_x_data := xd, last_x_mime := xm\<rparr>, []))
        else if wd \<noteq> last_w_data st \<and> xd \<noteq> last_x_data st then
          (if wd \<noteq> last_x_data st then
             (both, Print (Conflict wm) # set_x11_clipboard (xclip_ok env) wd wm)
           else (st\<lparr>last_w_data := wd, last_w_mime := wm\<rparr>, [Print (Conflict wm)]))
        else
          (let st1 = (if wd \<noteq> [] then st\<lparr>last_w_data := wd, last_w_mime := wm\<rparr> else st);
               st2 = (if xd \<noteq> [] then st1\<lparr>last_x_data := xd, last_x_mime := xm\<rparr> else st1)
           in (st2, [])))"
    unfolding r_def both_def sync_def prod.case Let_def ..
  show thesis
  proof (cases "wd \<noteq> last_w_data st \<and> norm_data wd wm \<noteq> norm_data xd xm")
    case a: True
    show thesis
    proof (cases "wd \<noteq> last_x_data st")
      case True
      with a unfold show thesis by (intro A_write) simp_all
    next
      case False
      with a unfold show thesis by (intro A_skip) simp_all
    qed
  next
    case na: False
    show thesis
    proof (cases "xd \<noteq> last_x_data st \<and> norm_data xd xm \<noteq> norm_data wd wm")
      case b: True
      with na have w: "wd = last_w_data st" by metis
      show thesis
      proof (cases "xd \<noteq> last_w_data st")
        case True
        have "r = (st\<lparr>last_w_data := xd, last_w_mime := xm, last_x_data := xd, last_x_mime := xm\<rparr>,
              Print (X11_to_Wayland xm) # set_wayland_clipboard (wl_copy_ok env) xd xm)"
          using unfold na b True by simp
        with w b True show thesis by (intro B_write) auto
      next
        case False
        have "r = (st\<lparr>last_x_data := xd, last_x_mime := xm\<rparr>, [])"
          using unfold na b False by simp
        with w b False show thesis by (intro B_skip) auto
      qed
    next
      case nb: False
      show thesis
      proof (cases "wd \<noteq> last_w_data st \<and> xd \<noteq> last_x_data st")
        case c: True
        with na have eq: "norm_data wd wm = norm_data xd xm" by metis
        show thesis
        proof (cases "wd \<noteq> last_x_data st")
          case True
          have "r = (both, Print (Conflict wm) # set_x11_clipboard (xclip_ok env) wd wm)"
            using unfold na nb c True by simp
          with c eq True show thesis by (intro C_write) auto
        next
          case False
          have "r = (st\<lparr>last_w_data := wd, last_w_mime := wm\<rparr>, [Print (Conflict wm)])"
            using unfold na nb c False by simp
          with c eq False show thesis by (intro C_skip) auto
        qed
      next
        case nc: False
        have "r = (let st1 = (if wd \<noteq> [] then st\<lparr>last_w_data := wd, last_w_mime := wm\<rparr> else st);
                st2 = (if xd \<noteq> [] then st1\<lparr>last_x_data := xd, last_x_mime := xm\<rparr> else st1)
            in (st2, []))"
          using unfold na nb nc by simp
        moreover from na nb nc have "wd = last_w_data st \<or> xd = last_x_data st"
          "wd = last_w_data st \<or> norm_data wd wm = norm_data xd xm"
          "xd = last_x_data st \<or> norm_data wd wm = norm_data xd xm" by metis+
        ultimately show thesis by (intro D)
      qed
    qed
  qed
qed


lemma conflict_read_effects: "Print (Conflict m) \<notin> set (read_effects env)"
  by (auto simp: read_effects_def get_wayland_clipboard_def get_x11_clipboard_def Let_def
      strip_html_wayland_def strip_html_x11_def split: prod.splits option.splits if_splits)

section \<open>Evaluating cycles on examples\<close>

lemma get_wayland_reply:
  "get_wayland_clipboard (reply ts (Some d)) = ((d, pick_x11_mime ts), [])"
  "get_wayland_clipboard (reply ts None) = (([], []), [Traceback])"
  by (simp_all add: get_wayland_clipboard_def reply_def pick_wayland_x11)

lemma get_x11_reply:
  "get_x11_clipboard (reply ts (Some d)) = ((d, pick_x11_mime ts), [])"
  "get_x11_clipboard (reply ts None) = (([], []), [Traceback])"
  by (simp_all add: get_x11_clipboard_def reply_def)

lemma strip_html_other:
  "m \<noteq> lit ''text/html'' \<Longrightarrow> strip_html_wayland env (d, m) = ((d, m), [])"
  "m \<noteq> lit ''text/html'' \<Longrightarrow> strip_html_x11 env (d, m) = ((d, m), [])"
  by (simp_all add: strip_html_wayland_def strip_html_x11_def)

lemma plain_env_sel:
  "wl_first (plain_env w x) = w" "x11_first (plain_env w x) = x"
  "wl_refetch (plain_env w x) = w" "x11_refetch (plain_env w x) = x"
  "soup_get_text (plain_env w x) h = None"
  "xclip_ok (plain_env w x) = True" "wl_copy_ok (plain_env w x) = True"
  by (simp_all add: plain_env_def)

lemma pick_x11_html_only: "pick_x11_mime [lit ''text/html''] = lit ''text/html''"
  by (simp add: pick_x11_mime_def lit_eq_iff)

lemma pick_x11_Nil: "pick_x11_mime [] = lit ''text/plain;charset=utf-8''"
  by (simp add: pick_x11_mime_def)

lemma norm_data_plain: "norm_data d (lit ''text/plain'') = normalize_text d"
  "norm_data d (lit ''text/plain;charset=utf-8'') = normalize_text d"
  "norm_data d [] = d"
  by (simp_all add: norm_data_def is_text_mime_lit is_text_mime_Nil)

lemma normalize_text_foo: "normalize_text (blit ''foo'') = blit ''foo''"
  by (subst normalize_text_ascii) (simp_all add: blit_def rstrip_def strip_def lstrip_def)

lemma blit_Nil: "blit (c # cs) \<noteq> []" "[] \<noteq> blit (c # cs)"
  by (simp_all add: blit_def)

lemma cycle_foo:
  "cycle (plain_env (reply [lit ''text/plain''] (Some (blit ''foo''))) (reply [] (Some []))) initial_state
   = (\<lparr>last_w_data = blit ''foo'', last_w_mime = lit ''text/plain'',
        last_x_data = blit ''foo'', last_x_mime = lit ''text/plain''\<rparr>,
      [Print (Wayland_to_X11 (lit ''text/plain'')), Xclip_Write (blit ''foo'') (lit ''text/plain'')])"
  by (simp add: cycle_def plain_env_sel get_wayland_reply get_x11_reply pick_x11_plain pick_x11_Nil
      strip_html_other lit_eq_iff sync_def norm_data_plain normalize_text_foo normalize_text_Nil
      initial_state_def blit_Nil set_x11_clipboard_def Let_def)

lemma cycle_fail:
  "cycle (plain_env (reply [lit ''text/plain''] None) (reply [lit ''text/plain''] (Some (blit ''foo''))))
     \<lparr>last_w_data = blit ''foo'', last_w_mime = lit ''text/plain'',
        last_x_data = blit ''foo'', last_x_mime = lit ''text/plain''\<rparr>
   = (\<lparr>last_w_data = [], last_w_mime = [], last_x_data = [], last_x_mime = []\<rparr>,
      [Traceback, Print (Wayland_to_X11 []), Xclip_Write [] []])"
  by (simp add: cycle_def plain_env_sel get_wayland_reply get_x11_reply pick_x11_plain pick_x11_Nil
      strip_html_other lit_eq_iff lit_Nil sync_def norm_data_plain normalize_text_foo normalize_text_Nil
      blit_Nil set_x11_clipboard_def Let_def)

lemma snapshot_reply:
  "pick_x11_mime ts \<noteq> lit ''text/html'' \<Longrightarrow>
     wayland_snapshot (plain_env (reply ts (Some d)) x) = (d, pick_x11_mime ts)"
  "pick_x11_mime ts \<noteq> lit ''text/html'' \<Longrightarrow>
     x11_snapshot (plain_env w (reply ts (Some d))) = (d, pick_x11_mime ts)"
  by (simp_all add: wayland_snapshot_def x11_snapshot_def plain_env_sel get_wayland_reply
      get_x11_reply strip_html_other)

lemma snapshot_plain:
  "wayland_snapshot (plain_env (reply [lit ''text/plain''] (Some d)) x) = (d, lit ''text/plain'')"
  "x11_snapshot (plain_env w (reply [lit ''text/plain''] (Some d))) = (d, lit ''text/plain'')"
  by (simp_all add: snapshot_reply pick_x11_plain lit_eq_iff)

lemma main_loop_write_outcome:
  "map fst (main_loop st (map (with_write_outcome a b) envs)) = map fst (main_loop st envs)"
proof (induction envs arbitrary: st)
  case Nil
  then show ?case by simp
next
  case (Cons env envs)
  have "fst (cycle (with_write_outcome a b env) st) = fst (cycle env st)"
    unfolding with_write_outcome_def
    by (simp only: cycle_state snapshots_write_flags sync_state_write_flags)
  with Cons.IH show ?case
    by (simp add: split_beta)
qed

lemma length_main_loop: "length (main_loop st envs) = length envs"
  by (induction envs arbitrary: st) (simp_all add: split_beta)

section \<open>The claims\<close>

subsection \<open>Stability after a propagation\<close>

lemma html_x: "blit ''<b>x</b>'' \<noteq> []" "blit ''x'' \<noteq> blit ''<b>x</b>''"
  "blit ''<b>x</b>'' \<noteq> blit ''x''"
  by (simp_all add: blit_def)

lemma normalize_text_html_x: "normalize_text (blit ''<b>x</b>'') = blit ''<b>x</b>''"
  by (subst normalize_text_ascii) (simp_all add: blit_def rstrip_def strip_def lstrip_def)

lemma normalize_text_x: "normalize_text (blit ''x'') = blit ''x''"
  by (subst normalize_text_ascii) (simp_all add: blit_def rstrip_def strip_def lstrip_def)

lemma decode_utf8_html_x: "decode_utf8 (blit ''<b>x</b>'') = lit ''<b>x</b>''"
  unfolding decode_utf8_def
  by (subst bytes_decode_ascii) (simp_all add: blit_def lit_def rstrip_def)

lemma str_encode_x: "str_encode (lit ''x'') = blit ''x''"
  by (subst str_encode_ascii) (simp_all add: blit_def lit_def)

lemma pick_x11_utf8_plain:
  "pick_x11_mime [lit ''text/plain;charset=utf-8''] = lit ''text/plain;charset=utf-8''"
  by (simp add: pick_x11_mime_def lit_eq_iff startswith_lit)

lemma pick_x11_utf8_string: "pick_x11_mime [lit ''UTF8_STRING''] = lit ''UTF8_STRING''"
  by (simp add: pick_x11_mime_def lit_eq_iff startswith_lit)

lemma soup_env_sel:
  "wl_first (soup_env g w x) = w" "x11_first (soup_env g w x) = x"
  "wl_refetch (soup_env g w x) = w" "x11_refetch (soup_env g w x) = x"
  "soup_get_text (soup_env g w x) = g"
  "xclip_ok (soup_env g w x) = True" "wl_copy_ok (soup_env g w x) = True"
  by (simp_all add: soup_env_def)

lemma cycle_html_x_first:
  "cycle (plain_env (reply [] (Some (blit ''<b>x</b>''))) (reply [] (Some []))) initial_state
   = (\<lparr>last_w_data = blit ''<b>x</b>'', last_w_mime = lit ''text/plain;charset=utf-8'',
        last_x_data = blit ''<b>x</b>'', last_x_mime = lit ''text/plain;charset=utf-8''\<rparr>,
      [Print (Wayland_to_X11 (lit ''text/plain;charset=utf-8'')),
       Xclip_Write (blit ''<b>x</b>'') (lit ''text/plain;charset=utf-8'')])"
  by (simp add: cycle_def plain_env_sel get_wayland_reply get_x11_reply pick_x11_Nil
      strip_html_other lit_eq_iff sync_def norm_data_plain normalize_text_html_x normalize_text_Nil
      initial_state_def html_x set_x11_clipboard_def Let_def)

lemma cycle_html_x_second:
  "cycle (soup_env (\<lambda>html. if html = lit ''<b>x</b>'' then Some (lit ''x'') else None)
            (reply [lit ''text/html''] (Some (blit ''<b>x</b>'')))
            (reply [lit ''text/plain;charset=utf-8''] (Some (blit ''<b>x</b>''))))
     \<lparr>last_w_data = blit ''<b>x</b>'', last_w_mime = lit ''text/plain;charset=utf-8'',
        last_x_data = blit ''<b>x</b>'', last_x_mime = lit ''text/plain;charset=utf-8''\<rparr>
   = (\<lparr>last_w_data = blit ''x'', last_w_mime = lit ''text/plain;charset=utf-8'',
        last_x_data = blit ''x'', last_x_mime = lit ''text/plain;charset=utf-8''\<rparr>,
      [Print Stripped_Wayland, Print (Wayland_to_X11 (lit ''text/plain;charset=utf-8'')),
       Xclip_Write (blit ''x'') (lit ''text/plain;charset=utf-8'')])"
  by (simp add: cycle_def soup_env_sel get_wayland_reply get_x11_reply pick_x11_html_only
      pick_x11_utf8_plain strip_html_other strip_html_wayland_def decode_utf8_html_x str_encode_x
      lit_eq_iff sync_def norm_data_plain normalize_text_html_x normalize_text_x
      html_x set_x11_clipboard_def Let_def)

text \<open>
  Claim C1, as stated, fails. The Wayland listing fails, so the default type is read, and
  the text \<open><b>x</b>\<close> is copied to X11: both sides remember it. In the next cycle both
  reads return exactly these bytes, but Wayland now selects \<open>text/html\<close>: the data is
  stripped to \<open>x\<close>, differs from what is remembered, and is written to X11.
\<close>

theorem reads_equal_to_memory_are_propagated:
  "(let env1 = plain_env (reply [] (Some (blit ''<b>x</b>''))) (reply [] (Some []));
        st1 = fst (cycle env1 initial_state);
        env2 = soup_env (\<lambda>html. if html = lit ''<b>x</b>'' then Some (lit ''x'') else None)
                 (reply [lit ''text/html''] (Some (blit ''<b>x</b>'')))
                 (reply [lit ''text/plain;charset=utf-8''] (Some (blit ''<b>x</b>'')))
    in writes_to X11 (snd (cycle env1 initial_state)) =
         [(blit ''<b>x</b>'', lit ''text/plain;charset=utf-8'')] \<and>
       fst (fst (get_wayland_clipboard (wl_first env2))) = last_w_data st1 \<and>
       fst (fst (get_x11_clipboard (x11_first env2))) = last_x_data st1 \<and>
       writes_to X11 (snd (cycle env2 st1)) = [(blit ''x'', lit ''text/plain;charset=utf-8'')] \<and>
       last_x_data (fst (cycle env2 st1)) = blit ''x'')"
  by (simp add: Let_def cycle_html_x_first cycle_html_x_second soup_env_sel get_wayland_reply
      get_x11_reply)

text \<open>
  Claim C1, amended. The condition is on the snapshots of the cycle, that is on what the
  reads return after the HTML stripping of a read that selected \<open>text/html\<close>: a cycle
  whose two snapshots have the data remembered for each side writes to neither backend,
  takes the last branch (it prints nothing), and only refreshes the remembered MIME of the
  sides whose data is not empty. This holds in every state, so in particular in the state
  a successful propagation has just left.
\<close>

theorem stability_after_propagation:
  assumes "fst (wayland_snapshot env) = last_w_data st"
    and "fst (x11_snapshot env) = last_x_data st"
  shows "writes_to X11 (snd (cycle env st)) = [] \<and>
         writes_to Wayland (snd (cycle env st)) = [] \<and>
         snd (sync env st (wayland_snapshot env) (x11_snapshot env)) = [] \<and>
         fst (cycle env st) =
           st\<lparr>last_w_mime :=
                 (if last_w_data st \<noteq> [] then snd (wayland_snapshot env) else last_w_mime st),
              last_x_mime :=
                 (if last_x_data st \<noteq> [] then snd (x11_snapshot env) else last_x_mime st)\<rparr>"
proof -
  obtain wm where w: "wayland_snapshot env = (last_w_data st, wm)"
    using assms(1) by (cases "wayland_snapshot env") simp
  obtain xm where x: "x11_snapshot env = (last_x_data st, xm)"
    using assms(2) by (cases "x11_snapshot env") simp
  show ?thesis
    by (cases rule: sync_cases [where env = env and st = st and wd = "last_w_data st" and wm = wm
          and xd = "last_x_data st" and xm = xm])
       (simp_all add: writes_to_cycle cycle_state w x Let_def)
qed

text \<open>
  The scenario itself: Wayland offers \<open>foo\<close>, the engine copies it to X11; in the next
  cycle both backends return \<open>foo\<close>, Wayland under the type \<open>UTF8_STRING\<close>. Nothing is
  written, and the type remembered for Wayland is refreshed.
\<close>

theorem stability_after_propagation_witness:
  "cycle (plain_env (reply [lit ''text/plain''] (Some (blit ''foo''))) (reply [] (Some [])))
      initial_state
    = (\<lparr>last_w_data = blit ''foo'', last_w_mime = lit ''text/plain'',
         last_x_data = blit ''foo'', last_x_mime = lit ''text/plain''\<rparr>,
       [Print (Wayland_to_X11 (lit ''text/plain'')),
        Xclip_Write (blit ''foo'') (lit ''text/plain'')]) \<and>
   (let env = plain_env (reply [lit ''UTF8_STRING''] (Some (blit ''foo'')))
                (reply [lit ''text/plain''] (Some (blit ''foo'')));
        st = \<lparr>last_w_data = blit ''foo'', last_w_mime = lit ''text/plain'',
               last_x_data = blit ''foo'', last_x_mime = lit ''text/plain''\<rparr>
    in fst (wayland_snapshot env) = last_w_data st \<and>
       fst (x11_snapshot env) = last_x_data st \<and>
       writes_to X11 (snd (cycle env st)) = [] \<and>
       writes_to Wayland (snd (cycle env st)) = [] \<and>
       fst (cycle env st) = st\<lparr>last_w_mime := lit ''UTF8_STRING''\<rparr>)"
proof -
  let ?env = "plain_env (reply [lit ''UTF8_STRING''] (Some (blit ''foo'')))
                (reply [lit ''text/plain''] (Some (blit ''foo'')))"
  let ?st = "\<lparr>last_w_data = blit ''foo'', last_w_mime = lit ''text/plain'',
               last_x_data = blit ''foo'', last_x_mime = lit ''text/plain''\<rparr>"
  have sw: "wayland_snapshot ?env = (blit ''foo'', lit ''UTF8_STRING'')"
    by (simp add: snapshot_reply pick_x11_utf8_string lit_eq_iff)
  have sx: "x11_snapshot ?env = (blit ''foo'', lit ''text/plain'')"
    by (simp add: snapshot_plain)
  have w: "fst (wayland_snapshot ?env) = last_w_data ?st"
    and x: "fst (x11_snapshot ?env) = last_x_data ?st"
    by (simp_all add: sw sx)
  from stability_after_propagation [OF w x] w x show ?thesis
    by (simp add: cycle_foo sw sx blit_Nil Let_def)
qed

subsection \<open>No echo\<close>

text \<open>
  Claim C2. Let \<open>B\<close> be the side whose data differs from what is remembered for it, and
  \<open>A\<close> the other side, whose data is unchanged. If the data remembered for \<open>A\<close> equals the
  current data of \<open>B\<close>, the cycle writes nothing to \<open>A\<close>. The statement is about both
  choices of \<open>(A, B)\<close>.
\<close>

theorem no_echo_guard:
  assumes "fst (current env B) \<noteq> fst (remembered st B)"
    and "fst (current env A) = fst (remembered st A)"
    and "fst (remembered st A) = fst (current env B)"
    and "A = other B"
  shows "writes_to A (snd (cycle env st)) = []"
  using assms
  by (cases B; cases "wayland_snapshot env"; cases "x11_snapshot env")
     (auto simp: writes_to_cycle sync_def Let_def writes_to_set_x11 writes_to_set_wayland)

lemma foo_bar: "blit ''foo'' \<noteq> blit ''bar''" "blit ''bar'' \<noteq> blit ''foo''"
  by (simp_all add: blit_def)

text \<open>
  Both directions at once: X11 changes to what Wayland holds, and Wayland changes to what
  X11 holds.
\<close>

theorem no_echo_guard_witness:
  "(let env = plain_env (reply [lit ''text/plain''] (Some (blit ''foo'')))
                (reply [lit ''text/plain''] (Some (blit ''foo'')));
        st = \<lparr>last_w_data = blit ''foo'', last_w_mime = lit ''text/plain'',
               last_x_data = blit ''bar'', last_x_mime = lit ''text/plain''\<rparr>
    in fst (current env X11) \<noteq> fst (remembered st X11) \<and>
       fst (current env Wayland) = fst (remembered st Wayland) \<and>
       fst (remembered st Wayland) = fst (current env X11) \<and>
       writes_to Wayland (snd (cycle env st)) = []) \<and>
   (let env = plain_env (reply [lit ''text/plain''] (Some (blit ''foo'')))
                (reply [lit ''text/plain''] (Some (blit ''foo'')));
        st = \<lparr>last_w_data = blit ''bar'', last_w_mime = lit ''text/plain'',
               last_x_data = blit ''foo'', last_x_mime = lit ''text/plain''\<rparr>
    in fst (current env Wayland) \<noteq> fst (remembered st Wayland) \<and>
       fst (current env X11) = fst (remembered st X11) \<and>
       fst (remembered st X11) = fst (current env Wayland) \<and>
       writes_to X11 (snd (cycle env st)) = [])"
proof -
  let ?env = "plain_env (reply [lit ''text/plain''] (Some (blit ''foo'')))
                (reply [lit ''text/plain''] (Some (blit ''foo'')))"
  let ?s1 = "\<lparr>last_w_data = blit ''foo'', last_w_mime = lit ''text/plain'',
               last_x_data = blit ''bar'', last_x_mime = lit ''text/plain''\<rparr>"
  let ?s2 = "\<lparr>last_w_data = blit ''bar'', last_w_mime = lit ''text/plain'',
               last_x_data = blit ''foo'', last_x_mime = lit ''text/plain''\<rparr>"
  have a: "fst (current ?env X11) \<noteq> fst (remembered ?s1 X11)"
    "fst (current ?env Wayland) = fst (remembered ?s1 Wayland)"
    "fst (remembered ?s1 Wayland) = fst (current ?env X11)" "Wayland = other X11"
    by (simp_all add: snapshot_plain foo_bar)
  have b: "fst (current ?env Wayland) \<noteq> fst (remembered ?s2 Wayland)"
    "fst (current ?env X11) = fst (remembered ?s2 X11)"
    "fst (remembered ?s2 X11) = fst (current ?env Wayland)" "X11 = other Wayland"
    by (simp_all add: snapshot_plain foo_bar)
  from no_echo_guard [OF a] no_echo_guard [OF b] a(1-3) b(1-3) show ?thesis
    unfolding Let_def by blast
qed

subsection \<open>A write that fails\<close>

text \<open>
  Claim C8. The state a cycle leaves does not depend on whether the write commands succeed:
  with any outcome of \<open>xclip\<close> and \<open>wl-copy\<close> the remembered snapshots are the same. The loop
  goes on: run over any list of wake-ups, it performs one cycle for each of them and passes
  through the same states, whatever the outcomes of the writes.
\<close>

theorem write_failure_state_update:
  "fst (cycle (with_write_outcome a b env) st) = fst (cycle env st) \<and>
   map fst (main_loop st (map (with_write_outcome a b) envs)) = map fst (main_loop st envs) \<and>
   length (main_loop st (map (with_write_outcome a b) envs)) = length envs"
proof -
  have "fst (cycle (with_write_outcome a b env) st) = fst (cycle env st)"
    unfolding with_write_outcome_def
    by (simp only: cycle_state snapshots_write_flags sync_state_write_flags)
  then show ?thesis
    by (simp add: main_loop_write_outcome length_main_loop)
qed

text \<open>
  The first cycle of the stability scenario once more, with an \<open>xclip\<close> that fails: a
  traceback is printed, and the state is the one the successful write leaves.
\<close>

theorem write_failure_state_update_witness:
  "(let env = plain_env (reply [lit ''text/plain''] (Some (blit ''foo''))) (reply [] (Some []))
    in snd (cycle (with_write_outcome False False env) initial_state) =
         [Print (Wayland_to_X11 (lit ''text/plain'')),
          Xclip_Write (blit ''foo'') (lit ''text/plain''), Traceback] \<and>
       fst (cycle (with_write_outcome False False env) initial_state) =
         \<lparr>last_w_data = blit ''foo'', last_w_mime = lit ''text/plain'',
          last_x_data = blit ''foo'', last_x_mime = lit ''text/plain''\<rparr> \<and>
       fst (cycle (with_write_outcome False False env) initial_state) =
         fst (cycle env initial_state))"
proof -
  let ?env = "plain_env (reply [lit ''text/plain''] (Some (blit ''foo''))) (reply [] (Some []))"
  have e: "snd (cycle (with_write_outcome False False ?env) initial_state) =
         [Print (Wayland_to_X11 (lit ''text/plain'')),
          Xclip_Write (blit ''foo'') (lit ''text/plain''), Traceback]"
    by (simp add: cycle_def with_write_outcome_def plain_env_def get_wayland_reply get_x11_reply
        pick_x11_plain pick_x11_Nil strip_html_other lit_eq_iff sync_def norm_data_plain
        normalize_text_foo normalize_text_Nil initial_state_def blit_Nil set_x11_clipboard_def
        Let_def)
  from write_failure_state_update [of False False ?env initial_state "[]"]
  have "fst (cycle (with_write_outcome False False ?env) initial_state) =
        fst (cycle ?env initial_state)"
    by simp
  with e show ?thesis
    by (simp add: cycle_foo Let_def)
qed

subsection \<open>Examples of cycles that write\<close>

lemma hi_nl: "blit ''hi'' @ [0x0A] \<noteq> []" "blit ''hi'' \<noteq> []" "blit ''hi'' @ [0x0A] \<noteq> blit ''hi''"
  by (simp_all add: blit_def)

lemma cycle_conflict:
  "cycle (plain_env (reply [lit ''text/plain''] (Some (blit ''hi'' @ [0x0A])))
            (reply [lit ''text/plain''] (Some (blit ''hi'')))) initial_state
   = (\<lparr>last_w_data = blit ''hi'' @ [0x0A], last_w_mime = lit ''text/plain'',
        last_x_data = blit ''hi'' @ [0x0A], last_x_mime = lit ''text/plain''\<rparr>,
      [Print (Conflict (lit ''text/plain'')),
       Xclip_Write (blit ''hi'' @ [0x0A]) (lit ''text/plain'')])"
  by (simp add: cycle_def plain_env_sel get_wayland_reply get_x11_reply pick_x11_plain
      strip_html_other lit_eq_iff sync_def norm_data_plain normalize_text_hi_nl normalize_text_hi
      initial_state_def hi_nl set_x11_clipboard_def Let_def)

lemma cycle_hi_nl:
  "cycle (plain_env (reply [lit ''text/plain''] (Some (blit ''hi'' @ [0x0A])))
            (reply [] (Some []))) initial_state
   = (\<lparr>last_w_data = blit ''hi'' @ [0x0A], last_w_mime = lit ''text/plain'',
        last_x_data = blit ''hi'' @ [0x0A], last_x_mime = lit ''text/plain''\<rparr>,
      [Print (Wayland_to_X11 (lit ''text/plain'')),
       Xclip_Write (blit ''hi'' @ [0x0A]) (lit ''text/plain'')])"
  by (simp add: cycle_def plain_env_sel get_wayland_reply get_x11_reply pick_x11_plain pick_x11_Nil
      strip_html_other lit_eq_iff sync_def norm_data_plain normalize_text_hi_nl normalize_text_Nil
      initial_state_def hi_nl set_x11_clipboard_def Let_def)

lemma conflict_set_x11: "Print (Conflict m) \<notin> set (set_x11_clipboard ok d mime)"
  by (simp add: set_x11_clipboard_def)

lemma conflict_set_wayland: "Print (Conflict m) \<notin> set (set_wayland_clipboard ok d mime)"
  by (simp add: set_wayland_clipboard_def)

subsection \<open>The outcome of a conflict\<close>

text \<open>
  Claim C4. The Wayland read returns \<open>(b"one", "text/plain")\<close>, the X11 read returns
  \<open>(b"two", "text/plain")\<close>, and the data remembered for neither side is \<open>b"one"\<close>. Then
  the cycle writes \<open>b"one"\<close> to X11 under the type \<open>text/plain\<close>, writes nothing to
  Wayland, and both remembered snapshots end as \<open>(b"one", "text/plain")\<close>. That the
  remembered data also differs from \<open>b"two"\<close> is not needed.
\<close>

theorem conflict_wayland_wins:
  assumes "fst (get_wayland_clipboard (wl_first env)) = (blit ''one'', lit ''text/plain'')"
    and "fst (get_x11_clipboard (x11_first env)) = (blit ''two'', lit ''text/plain'')"
    and "last_w_data st \<noteq> blit ''one''"
    and "last_x_data st \<noteq> blit ''one''"
  shows "writes_to X11 (snd (cycle env st)) = [(blit ''one'', lit ''text/plain'')] \<and>
         writes_to Wayland (snd (cycle env st)) = [] \<and>
         remembered (fst (cycle env st)) Wayland = (blit ''one'', lit ''text/plain'') \<and>
         remembered (fst (cycle env st)) X11 = (blit ''one'', lit ''text/plain'')"
proof -
  have w: "wayland_snapshot env = (blit ''one'', lit ''text/plain'')"
    by (simp add: wayland_snapshot_def assms(1) strip_html_other lit_eq_iff)
  have x: "x11_snapshot env = (blit ''two'', lit ''text/plain'')"
    by (simp add: x11_snapshot_def assms(2) strip_html_other lit_eq_iff)
  have n: "norm_data (blit ''one'') (lit ''text/plain'') \<noteq> norm_data (blit ''two'') (lit ''text/plain'')"
    by (simp add: norm_data_plain normalize_text_one normalize_text_two one_two)
  from assms(3,4) have c: "blit ''one'' \<noteq> last_w_data st" "blit ''one'' \<noteq> last_x_data st"
    by simp_all
  show ?thesis
    using n c
    by (cases rule: sync_cases [where env = env and st = st and wd = "blit ''one''"
          and wm = "lit ''text/plain''" and xd = "blit ''two''" and xm = "lit ''text/plain''"])
       (simp_all add: writes_to_cycle cycle_state w x writes_to_set_x11)
qed

theorem conflict_wayland_wins_witness:
  "(let env = plain_env (reply [lit ''text/plain''] (Some (blit ''one'')))
                (reply [lit ''text/plain''] (Some (blit ''two'')));
        st = initial_state
    in fst (get_wayland_clipboard (wl_first env)) = (blit ''one'', lit ''text/plain'') \<and>
       fst (get_x11_clipboard (x11_first env)) = (blit ''two'', lit ''text/plain'') \<and>
       last_w_data st \<noteq> blit ''one'' \<and> last_w_data st \<noteq> blit ''two'' \<and>
       last_x_data st \<noteq> blit ''one'' \<and> last_x_data st \<noteq> blit ''two'' \<and>
       writes_to X11 (snd (cycle env st)) = [(blit ''one'', lit ''text/plain'')] \<and>
       remembered (fst (cycle env st)) Wayland = (blit ''one'', lit ''text/plain'') \<and>
       remembered (fst (cycle env st)) X11 = (blit ''one'', lit ''text/plain''))"
proof -
  let ?env = "plain_env (reply [lit ''text/plain''] (Some (blit ''one'')))
                (reply [lit ''text/plain''] (Some (blit ''two'')))"
  have r: "fst (get_wayland_clipboard (wl_first ?env)) = (blit ''one'', lit ''text/plain'')"
    "fst (get_x11_clipboard (x11_first ?env)) = (blit ''two'', lit ''text/plain'')"
    by (simp_all add: plain_env_sel get_wayland_reply get_x11_reply pick_x11_plain)
  have s: "last_w_data initial_state \<noteq> blit ''one''" "last_x_data initial_state \<noteq> blit ''one''"
    "last_w_data initial_state \<noteq> blit ''two''" "last_x_data initial_state \<noteq> blit ''two''"
    by (simp_all add: initial_state_def blit_Nil)
  from conflict_wayland_wins [OF r s(1,2)] r s show ?thesis
    unfolding Let_def by blast
qed

subsection \<open>Only raw data is written and remembered\<close>

text \<open>
  Claim C9. Whatever a cycle writes to X11 is the Wayland snapshot of that cycle, data and
  type; the data it writes to Wayland is the data of the X11 snapshot; and the snapshot it
  remembers for a side is the one remembered before or one of the two snapshots of the
  cycle. The snapshots are those the comparison starts from, after the HTML stripping. The
  comparison keys are never written or remembered in their place.
\<close>

theorem raw_bytes_propagation:
  "(\<forall>w \<in> set (writes_to X11 (snd (cycle env st))). w = wayland_snapshot env) \<and>
   (\<forall>x \<in> set (writes_to Wayland (snd (cycle env st))). fst x = fst (x11_snapshot env)) \<and>
   remembered (fst (cycle env st)) Wayland
     \<in> {remembered st Wayland, wayland_snapshot env, x11_snapshot env} \<and>
   remembered (fst (cycle env st)) X11
     \<in> {remembered st X11, wayland_snapshot env, x11_snapshot env}"
proof -
  obtain wd wm where w: "wayland_snapshot env = (wd, wm)" by (cases "wayland_snapshot env")
  obtain xd xm where x: "x11_snapshot env = (xd, xm)" by (cases "x11_snapshot env")
  show ?thesis
    by (cases rule: sync_cases [where env = env and st = st and wd = wd and wm = wm
          and xd = xd and xm = xm])
       (simp_all add: writes_to_cycle cycle_state w x writes_to_set_x11 writes_to_set_wayland Let_def)
qed

text \<open>
  Wayland offers \<open>hi\<close> followed by a newline. The comparison key is \<open>hi\<close>, and what is
  written to X11 and remembered has the newline.
\<close>

theorem raw_bytes_propagation_witness:
  "(let env = plain_env (reply [lit ''text/plain''] (Some (blit ''hi'' @ [0x0A])))
                (reply [] (Some []));
        st = initial_state
    in writes_to X11 (snd (cycle env st)) = [(blit ''hi'' @ [0x0A], lit ''text/plain'')] \<and>
       wayland_snapshot env = (blit ''hi'' @ [0x0A], lit ''text/plain'') \<and>
       norm_data (blit ''hi'' @ [0x0A]) (lit ''text/plain'') = blit ''hi'' \<and>
       blit ''hi'' @ [0x0A] \<noteq> blit ''hi'' \<and>
       (\<forall>w \<in> set (writes_to X11 (snd (cycle env st))). w = wayland_snapshot env) \<and>
       remembered (fst (cycle env st)) X11 = wayland_snapshot env \<and>
       remembered (fst (cycle env st)) X11
         \<in> {remembered st X11, wayland_snapshot env, x11_snapshot env})"
proof -
  let ?env = "plain_env (reply [lit ''text/plain''] (Some (blit ''hi'' @ [0x0A])))
                (reply [] (Some []))"
  have w: "writes_to X11 (snd (cycle ?env initial_state)) = [(blit ''hi'' @ [0x0A], lit ''text/plain'')]"
    by (simp add: cycle_hi_nl)
  have s: "wayland_snapshot ?env = (blit ''hi'' @ [0x0A], lit ''text/plain'')"
    by (simp add: snapshot_plain)
  have n: "norm_data (blit ''hi'' @ [0x0A]) (lit ''text/plain'') = blit ''hi''"
    by (simp add: norm_data_plain normalize_text_hi_nl)
  have r: "remembered (fst (cycle ?env initial_state)) X11 = wayland_snapshot ?env"
    by (simp add: cycle_hi_nl s)
  from raw_bytes_propagation [of ?env initial_state] w s n r hi_nl(3) show ?thesis
    unfolding Let_def by blast
qed

subsection \<open>When the conflict branch is taken\<close>

text \<open>
  Claim C10. The conflict branch prints its message, so it is taken exactly when that
  message is among the effects of the cycle. Whenever it is taken, the comparison keys of
  the two snapshots are equal; anything then written to X11 is the Wayland snapshot, whose
  key equals the key of the X11 snapshot; and nothing is written to Wayland.
\<close>

theorem conflict_branch_reachability:
  assumes "Print (Conflict m) \<in> set (snd (cycle env st))"
  shows "norm_data (fst (wayland_snapshot env)) (snd (wayland_snapshot env)) =
         norm_data (fst (x11_snapshot env)) (snd (x11_snapshot env)) \<and>
         (\<forall>w \<in> set (writes_to X11 (snd (cycle env st))).
            w = wayland_snapshot env \<and>
            norm_data (fst w) (snd w) = norm_data (fst (x11_snapshot env)) (snd (x11_snapshot env))) \<and>
         writes_to Wayland (snd (cycle env st)) = []"
proof -
  obtain wd wm where w: "wayland_snapshot env = (wd, wm)" by (cases "wayland_snapshot env")
  obtain xd xm where x: "x11_snapshot env = (xd, xm)" by (cases "x11_snapshot env")
  from assms have c: "Print (Conflict m) \<in> set (snd (sync env st (wd, wm) (xd, xm)))"
    by (simp add: cycle_eq conflict_read_effects w x)
  show ?thesis
    using c
    by (cases rule: sync_cases [where env = env and st = st and wd = wd and wm = wm
          and xd = xd and xm = xm])
       (simp_all add: writes_to_cycle w x writes_to_set_x11 writes_to_set_wayland
          conflict_set_x11 conflict_set_wayland Let_def)
qed

text \<open>
  From the initial state, Wayland offers \<open>hi\<close> with a newline and X11 offers \<open>hi\<close>: both
  changed, the keys are equal, and the conflict branch writes the Wayland data to X11.
\<close>

theorem conflict_branch_reachability_witness:
  "(let env = plain_env (reply [lit ''text/plain''] (Some (blit ''hi'' @ [0x0A])))
                (reply [lit ''text/plain''] (Some (blit ''hi'')));
        st = initial_state
    in Print (Conflict (lit ''text/plain'')) \<in> set (snd (cycle env st)) \<and>
       writes_to X11 (snd (cycle env st)) = [(blit ''hi'' @ [0x0A], lit ''text/plain'')] \<and>
       norm_data (fst (wayland_snapshot env)) (snd (wayland_snapshot env)) = blit ''hi'' \<and>
       norm_data (fst (x11_snapshot env)) (snd (x11_snapshot env)) = blit ''hi'' \<and>
       (\<forall>w \<in> set (writes_to X11 (snd (cycle env st))).
          norm_data (fst w) (snd w) = norm_data (fst (x11_snapshot env)) (snd (x11_snapshot env))))"
proof -
  let ?env = "plain_env (reply [lit ''text/plain''] (Some (blit ''hi'' @ [0x0A])))
                (reply [lit ''text/plain''] (Some (blit ''hi'')))"
  have c: "Print (Conflict (lit ''text/plain'')) \<in> set (snd (cycle ?env initial_state))"
    by (simp add: cycle_conflict)
  have w: "writes_to X11 (snd (cycle ?env initial_state)) = [(blit ''hi'' @ [0x0A], lit ''text/plain'')]"
    by (simp add: cycle_conflict)
  have n: "norm_data (fst (wayland_snapshot ?env)) (snd (wayland_snapshot ?env)) = blit ''hi''"
    "norm_data (fst (x11_snapshot ?env)) (snd (x11_snapshot ?env)) = blit ''hi''"
    by (simp_all add: snapshot_plain norm_data_plain normalize_text_hi_nl normalize_text_hi)
  from conflict_branch_reachability [OF c] c w n show ?thesis
    unfolding Let_def by blast
qed

subsection \<open>A read that fails\<close>

text \<open>
  Claim C3. A failed read gives the snapshot \<open>(b'', '')\<close> and the cycle completes, but the
  empty snapshot does cause a write. From the initial state, Wayland offers \<open>foo\<close> and the
  engine copies it to X11. In the next cycle the Wayland read raises and the X11 read
  returns \<open>foo\<close>, which is what is remembered for X11: the only change is the failed read.
  The empty data differs from what is remembered for both sides, so the first branch runs
  and writes the empty snapshot to X11.
\<close>

theorem read_failure_overwrites_x11:
  "(let env1 = plain_env (reply [lit ''text/plain''] (Some (blit ''foo''))) (reply [] (Some []));
        env2 = plain_env (reply [lit ''text/plain''] None)
                 (reply [lit ''text/plain''] (Some (blit ''foo'')));
        st1 = fst (cycle env1 initial_state)
    in remembered st1 Wayland = (blit ''foo'', lit ''text/plain'') \<and>
       remembered st1 X11 = (blit ''foo'', lit ''text/plain'') \<and>
       get_wayland_clipboard (wl_first env2) = (([], []), [Traceback]) \<and>
       wayland_snapshot env2 = ([], []) \<and>
       x11_snapshot env2 = remembered st1 X11 \<and>
       map snd (main_loop initial_state [env1, env2]) =
         [[Print (Wayland_to_X11 (lit ''text/plain'')),
           Xclip_Write (blit ''foo'') (lit ''text/plain'')],
          [Traceback, Print (Wayland_to_X11 []), Xclip_Write [] []]] \<and>
       writes_to X11 (snd (cycle env2 st1)) = [([], [])])"
  by (simp add: Let_def cycle_foo cycle_fail snapshot_plain wayland_snapshot_def plain_env_sel
      get_wayland_reply strip_html_other lit_Nil)

subsection \<open>HTML stripping that fails\<close>

text \<open>
  Claim C7, as stated, fails: after a failed stripping the engine reads the side again and
  takes whatever that read returns, type included. Here the first read selects
  \<open>text/html\<close>, the extraction raises, and the repeated read selects \<open>text/plain\<close>.
\<close>

theorem html_failure_mime_not_kept:
  "(let env = refetch_env (reply [lit ''text/html''] (Some (blit ''<b>hi</b>''))) (reply [] (Some []))
                (reply [lit ''text/plain''] (Some (blit ''hi''))) (reply [] (Some []))
    in snd (fst (get_wayland_clipboard (wl_first env))) = lit ''text/html'' \<and>
       soup_get_text env (decode_utf8 (fst (fst (get_wayland_clipboard (wl_first env))))) = None \<and>
       wayland_snapshot env = (blit ''hi'', lit ''text/plain'') \<and>
       snd (wayland_snapshot env) \<noteq> lit ''text/html'')"
  by (simp add: Let_def refetch_env_def wayland_snapshot_def get_wayland_reply
      strip_html_wayland_def pick_x11_plain pick_x11_mime_def lit_eq_iff startswith_lit)

text \<open>
  Claim C7, amended. When the read of a side selected \<open>text/html\<close> and the extraction
  raises, the snapshot of that side is the result of the repeated read, data and type, not
  stripped again; nothing of the first read is kept. The cycle then continues with the
  snapshots as usual. The type is \<open>text/html\<close> only when the repeated read selects it.
\<close>

theorem html_failure_refetch:
  "(snd (fst (get_wayland_clipboard (wl_first env))) = lit ''text/html'' \<and>
    soup_get_text env (decode_utf8 (fst (fst (get_wayland_clipboard (wl_first env))))) = None
    \<longrightarrow> wayland_snapshot env = fst (get_wayland_clipboard (wl_refetch env))) \<and>
   (snd (fst (get_x11_clipboard (x11_first env))) = lit ''text/html'' \<and>
    soup_get_text env (decode_utf8 (fst (fst (get_x11_clipboard (x11_first env))))) = None
    \<longrightarrow> x11_snapshot env = fst (get_x11_clipboard (x11_refetch env))) \<and>
   fst (cycle env st) = fst (sync env st (wayland_snapshot env) (x11_snapshot env))"
  by (auto simp: cycle_eq wayland_snapshot_def x11_snapshot_def strip_html_wayland_def
      strip_html_x11_def split: prod.splits)

text \<open>
  Both extractions fail. Wayland is read again and now holds other HTML; the repeated X11
  read raises and gives the empty snapshot.
\<close>

theorem html_failure_refetch_witness:
  "(let env = refetch_env (reply [lit ''text/html''] (Some (blit ''<b>hi</b>'')))
                (reply [lit ''text/html''] (Some (blit ''<i>yo</i>'')))
                (reply [lit ''text/html''] (Some (blit ''<b>new</b>'')))
                (reply [lit ''text/plain''] None)
    in snd (fst (get_wayland_clipboard (wl_first env))) = lit ''text/html'' \<and>
       soup_get_text env (decode_utf8 (fst (fst (get_wayland_clipboard (wl_first env))))) = None \<and>
       snd (fst (get_x11_clipboard (x11_first env))) = lit ''text/html'' \<and>
       soup_get_text env (decode_utf8 (fst (fst (get_x11_clipboard (x11_first env))))) = None \<and>
       fst (get_wayland_clipboard (wl_refetch env)) = (blit ''<b>new</b>'', lit ''text/html'') \<and>
       fst (get_x11_clipboard (x11_refetch env)) = ([], []) \<and>
       wayland_snapshot env = (blit ''<b>new</b>'', lit ''text/html'') \<and>
       x11_snapshot env = ([], []))"
proof -
  let ?env = "refetch_env (reply [lit ''text/html''] (Some (blit ''<b>hi</b>'')))
                (reply [lit ''text/html''] (Some (blit ''<i>yo</i>'')))
                (reply [lit ''text/html''] (Some (blit ''<b>new</b>'')))
                (reply [lit ''text/plain''] None)"
  have a: "snd (fst (get_wayland_clipboard (wl_first ?env))) = lit ''text/html''"
    "soup_get_text ?env (decode_utf8 (fst (fst (get_wayland_clipboard (wl_first ?env))))) = None"
    "snd (fst (get_x11_clipboard (x11_first ?env))) = lit ''text/html''"
    "soup_get_text ?env (decode_utf8 (fst (fst (get_x11_clipboard (x11_first ?env))))) = None"
    by (simp_all add: refetch_env_def get_wayland_reply get_x11_reply pick_x11_html_only)
  have r: "fst (get_wayland_clipboard (wl_refetch ?env)) = (blit ''<b>new</b>'', lit ''text/html'')"
    "fst (get_x11_clipboard (x11_refetch ?env)) = ([], [])"
    by (simp_all add: refetch_env_def get_wayland_reply get_x11_reply pick_x11_html_only)
  from html_failure_refetch [of ?env initial_state] a r
  have "wayland_snapshot ?env = (blit ''<b>new</b>'', lit ''text/html'')"
    "x11_snapshot ?env = ([], [])"
    by simp_all
  with a r show ?thesis
    unfolding Let_def by blast
qed

subsection \<open>The priority of the MIME selectors\<close>

text \<open>
  Claim C5. On every list of targets both selectors return what the priority order of the
  specification gives: the first rule that matches, in the order \<open>text/uri-list\<close>,
  \<open>text/html\<close>, the first entry that starts with \<open>image/\<close>,
  \<open>text/plain;charset=utf-8\<close>, \<open>text/plain\<close>, \<open>UTF8_STRING\<close>, and
  \<open>text/plain;charset=utf-8\<close> when none matches, as for the empty list. Both are total
  functions that return one string: nothing is raised.
\<close>

theorem mime_selector_priority:
  "pick_wayland_mime ts = select_spec ts \<and> pick_x11_mime ts = select_spec ts \<and>
   select_spec [] = lit ''text/plain;charset=utf-8''"
  by (simp add: pick_wayland_x11 pick_x11_spec select_spec_def priority_order_def)

text \<open>
  A list with a duplicate and two images: no rule before the image rule matches, and the
  first image listed is selected by both.
\<close>

theorem mime_selector_priority_witness:
  "(let ts = [lit ''UTF8_STRING'', lit ''image/png'', lit ''text/plain'', lit ''image/png'',
              lit ''image/gif'']
    in select_spec ts = lit ''image/png'' \<and>
       pick_wayland_mime ts = lit ''image/png'' \<and>
       pick_x11_mime ts = lit ''image/png'')"
proof -
  let ?ts = "[lit ''UTF8_STRING'', lit ''image/png'', lit ''text/plain'', lit ''image/png'',
              lit ''image/gif'']"
  have "select_spec ?ts = lit ''image/png''"
    by (simp add: select_spec_def priority_order_def lit_eq_iff startswith_lit)
  with mime_selector_priority [of ?ts] show ?thesis
    by (simp add: Let_def)
qed

subsection \<open>Normalizing twice\<close>

text \<open>
  Claim C6, as stated, fails. The trailing NULs are stripped before the line ends, so a NUL
  followed by a line feed is normalized to a NUL, and normalizing that gives the empty
  byte string.
\<close>

theorem normalize_not_idempotent:
  "is_text_mime (lit ''text/plain'') \<and>
   norm_data [0, 0x0A] (lit ''text/plain'') = [0] \<and>
   norm_data (norm_data [0, 0x0A] (lit ''text/plain'')) (lit ''text/plain'') = [] \<and>
   norm_data (norm_data [0, 0x0A] (lit ''text/plain'')) (lit ''text/plain'')
     \<noteq> norm_data [0, 0x0A] (lit ''text/plain'')"
  by (simp add: norm_data_def is_text_mime_lit normalize_text_nul_nl normalize_text_nul)

text \<open>
  Claim C6, amended. For a textual MIME, normalizing is idempotent on every byte sequence
  whose normalized form does not end with a NUL byte.
\<close>

theorem normalize_idempotent_without_trailing_nul:
  assumes "is_text_mime mime"
    and "norm_data x mime = [] \<or> last (norm_data x mime) \<noteq> 0"
  shows "norm_data (norm_data x mime) mime = norm_data x mime"
  using assms normalize_text_idem [of x] by (simp add: norm_data_def)

theorem normalize_idempotent_witness:
  "is_text_mime (lit ''text/plain'') \<and>
   (norm_data (blit ''hi'' @ [0x0A]) (lit ''text/plain'') = [] \<or>
    last (norm_data (blit ''hi'' @ [0x0A]) (lit ''text/plain'')) \<noteq> 0) \<and>
   norm_data (blit ''hi'' @ [0x0A]) (lit ''text/plain'') = blit ''hi'' \<and>
   norm_data (norm_data (blit ''hi'' @ [0x0A]) (lit ''text/plain'')) (lit ''text/plain'')
     = norm_data (blit ''hi'' @ [0x0A]) (lit ''text/plain'')"
proof -
  have m: "is_text_mime (lit ''text/plain'')"
    by (simp add: is_text_mime_lit)
  have n: "norm_data (blit ''hi'' @ [0x0A]) (lit ''text/plain'') = blit ''hi''"
    by (simp add: norm_data_def m normalize_text_hi_nl)
  have h: "norm_data (blit ''hi'' @ [0x0A]) (lit ''text/plain'') = [] \<or>
    last (norm_data (blit ''hi'' @ [0x0A]) (lit ''text/plain'')) \<noteq> 0"
    unfolding n by (simp add: blit_def)
  from normalize_idempotent_without_trailing_nul [OF m h] m n h show ?thesis
    by simp
qed

end
